theory Spec2Isabelle
  imports Complex_Main "HOL-Library.Log_Nat"
begin

section \<open>Text\<close>

text \<open>
  JavaScript strings are sequences of UTF-16 code units. The development covers the
  strings whose code units are below 256, one \<open>char\<close> for each code unit (the
  Latin-1 range); \<open>of_char c\<close> is the code unit.

  \<open>is_space\<close> is the set that both \<open>String.prototype.trim\<close> and the regular
  expression class \<open>\s\<close> use (WhiteSpace and LineTerminator of ECMAScript), cut to
  that range: TAB, LF, VT, FF, CR, SP and NBSP.
\<close>

definition is_space :: "char \<Rightarrow> bool" where
  "is_space c = (let n = (of_char c :: nat) in (9 \<le> n \<and> n \<le> 13) \<or> n = 32 \<or> n = 160)"

definition trim :: "string \<Rightarrow> string" where
  "trim s = rev (dropWhile is_space (rev (dropWhile is_space s)))"

text \<open>
  \<open>String.prototype.toLowerCase\<close> on the Latin-1 range: A to Z, and the letters from
  U+00C0 to U+00DE except the multiplication sign U+00D7, move up by 32.
\<close>

definition lower_char :: "char \<Rightarrow> char" where
  "lower_char c =
     (let n = (of_char c :: nat)
      in if (65 \<le> n \<and> n \<le> 90) \<or> (192 \<le> n \<and> n \<le> 222 \<and> n \<noteq> 215)
         then char_of (n + 32) else c)"

definition toLowerCase :: "string \<Rightarrow> string" where
  "toLowerCase s = map lower_char s"

subsection \<open>The title: \<open>event.replace(/^(what if|if)\s+/i, '').trim()\<close>\<close>

text \<open>
  The flag \<open>i\<close> compares characters after ECMAScript's Canonicalize, which maps a
  character to its upper case unless that would turn a character from 128 on into an
  ASCII one. The pattern has ASCII letters and a space only, and a character of the
  Latin-1 range canonicalizes to an ASCII letter only when it is that letter in either
  case, so \<open>canonicalize\<close> moves a to z down by 32 and leaves the rest.
\<close>

definition canonicalize :: "char \<Rightarrow> char" where
  "canonicalize c =
     (let n = (of_char c :: nat) in if 97 \<le> n \<and> n \<le> 122 then char_of (n - 32) else c)"

text \<open>A literal of the pattern at the head of the input: the rest of the input after it.\<close>

fun match_literal :: "string \<Rightarrow> string \<Rightarrow> string option" where
  "match_literal [] s = Some s"
| "match_literal (p # ps) [] = None"
| "match_literal (p # ps) (c # cs) =
     (if canonicalize c = canonicalize p then match_literal ps cs else None)"

text \<open>
  \<open>\s+\<close> at the end of the pattern: one whitespace character at least, then as many as
  there are (the quantifier is greedy and nothing follows it, so nothing is given back).
\<close>

definition match_spaces :: "string \<Rightarrow> string option" where
  "match_spaces s =
     (case s of [] \<Rightarrow> None
      | c # cs \<Rightarrow> if is_space c then Some (dropWhile is_space cs) else None)"

text \<open>
  The alternation tries \<open>what if\<close> first and \<open>if\<close> when that branch, with the
  \<open>\s+\<close> after it, does not match. \<open>^\<close> anchors the match at the start, and
  \<open>replace\<close> with a pattern that has no \<open>g\<close> flag replaces that one match; the
  string is returned as it is when there is none.
\<close>

definition match_branch :: "string \<Rightarrow> string \<Rightarrow> string option" where
  "match_branch w s = (case match_literal w s of None \<Rightarrow> None | Some r \<Rightarrow> match_spaces r)"

definition replace_what_if :: "string \<Rightarrow> string" where
  "replace_what_if s =
     (case match_branch ''what if'' s of
        Some r \<Rightarrow> r
      | None \<Rightarrow> (case match_branch ''if'' s of Some r \<Rightarrow> r | None \<Rightarrow> s))"

definition extractTitle :: "string \<Rightarrow> string" where
  "extractTitle event = trim (replace_what_if event)"

text \<open>
  The title as the specification words it: a string begins with a word when the word's
  characters stand at its head, letter case ignored, and a whitespace character follows
  them; the word is then cut off and the remainder trimmed.
\<close>

definition begins_with :: "string \<Rightarrow> string \<Rightarrow> bool" where
  "begins_with w s =
     (length w < length s \<and> map canonicalize (take (length w) s) = map canonicalize w
      \<and> is_space (s ! length w))"

definition extractTitle_spec :: "string \<Rightarrow> string" where
  "extractTitle_spec s =
     (if begins_with ''what if'' s then trim (drop (length ''what if'') s)
      else if begins_with ''if'' s then trim (drop (length ''if'') s)
      else trim s)"

section \<open>Numbers\<close>

text \<open>
  A JavaScript Number is an IEEE 754 binary64 value. The finite ones are rationals, and
  an arithmetic operation is the exact operation followed by rounding to the nearest
  binary64 value, ties to the even significand. The development covers the finite
  Numbers below \<open>2 ^ 1024\<close> in magnitude: no NaN, no infinity and no negative zero.

  \<open>binade x\<close> is the exponent \<open>e\<close> with \<open>2 ^ e \<le> \<bar>x\<bar> < 2 ^ (e + 1)\<close>, found from
  the bit lengths of the numerator and the denominator; \<open>ulp x\<close> is the distance between
  neighbouring binary64 values around \<open>x\<close> (52 fraction bits, and the fixed spacing of
  the subnormal range below \<open>2 ^ - 1022\<close>).
\<close>

definition round_half_even :: "rat \<Rightarrow> int" where
  "round_half_even x =
     (let f = \<lfloor>x\<rfloor>; d = x - of_int f
      in if d < 1 / 2 then f else if 1 / 2 < d then f + 1 else if even f then f else f + 1)"

definition binade :: "rat \<Rightarrow> int" where
  "binade x =
     (let (p, q) = quotient_of \<bar>x\<bar>; d = bitlen p - bitlen q
      in if 2 powi d \<le> \<bar>x\<bar> then d else d - 1)"

definition ulp :: "rat \<Rightarrow> rat" where
  "ulp x = 2 powi (max (binade x) (- 1022) - 52)"

definition binary64 :: "rat \<Rightarrow> rat" where
  "binary64 x = (if x = 0 then 0 else of_int (round_half_even (x / ulp x)) * ulp x)"

definition is_binary64 :: "rat \<Rightarrow> bool" where
  "is_binary64 x = (binary64 x = x)"

text \<open>
  The operators \<open>*\<close> and \<open>+\<close> on Numbers, and a decimal literal of the source, which
  denotes the Number nearest to it. \<open>Math.floor\<close> of a finite Number is exact.
\<close>

definition times64 :: "rat \<Rightarrow> rat \<Rightarrow> rat" where
  "times64 a b = binary64 (a * b)"

definition plus64 :: "rat \<Rightarrow> rat \<Rightarrow> rat" where
  "plus64 a b = binary64 (a + b)"

definition literal :: "rat \<Rightarrow> rat" where
  "literal q = binary64 q"

definition Math_floor :: "rat \<Rightarrow> int" where
  "Math_floor x = \<lfloor>x\<rfloor>"

text \<open>
  The decimal numeral of a natural number, which is what \<open>Number::toString\<close> gives for
  an integral Number below \<open>10 ^ 21\<close>.
\<close>

fun decimal :: "nat \<Rightarrow> string" where
  "decimal n =
     (if n < 10 then [char_of (48 + n)] else decimal (n div 10) @ [char_of (48 + n mod 10)])"

section \<open>Values, exceptions and the sources of chance\<close>

text \<open>
  The values a JSON text denotes. A property that is absent (\<open>undefined\<close>) is the
  \<open>None\<close> of an \<open>option\<close>. The members of an object are kept in insertion order, as
  \<open>JSON.parse\<close> creates them; the special order of integer-like keys is outside the model.
\<close>

datatype json =
    JNull
  | JBool bool
  | JNum rat
  | JStr string
  | JArr "json list"
  | JObj "(string \<times> json) list"

datatype js_error = TypeError | SyntaxError

text \<open>\<open>ToBoolean\<close>: what \<open>!x\<close>, \<open>x ? a : b\<close> and \<open>x || y\<close> test.\<close>

fun truthy :: "json option \<Rightarrow> bool" where
  "truthy None = False"
| "truthy (Some JNull) = False"
| "truthy (Some (JBool b)) = b"
| "truthy (Some (JNum x)) = (x \<noteq> 0)"
| "truthy (Some (JStr s)) = (s \<noteq> [])"
| "truthy (Some (JArr xs)) = True"
| "truthy (Some (JObj ms)) = True"

text \<open>
  What the process takes from outside: the values \<open>Math.random()\<close> and \<open>uuidv4()\<close>
  return, in the order of the calls, and the digits \<open>Number::toString\<close> prints for a
  Number that is not integral (the shortest decimal that reads back as the same
  binary64 value; it is a parameter here).
\<close>

record env =
  random :: "nat \<Rightarrow> rat"
  uuid :: "nat \<Rightarrow> string"
  fraction_text :: "rat \<Rightarrow> string"

text \<open>
  The contract of \<open>Math.random\<close>: a Number that is at least 0 and less than 1.
\<close>

definition random_ok :: "env \<Rightarrow> bool" where
  "random_ok E = (\<forall>i. is_binary64 (random E i) \<and> 0 \<le> random E i \<and> random E i < 1)"

section \<open>The store and the state of the process\<close>

text \<open>
  The three tables of \<open>initDatabase\<close>, a row of each as a record whose fields are the
  columns (with a prefix for the table, since the tables share column names). A
  column that may hold NULL is an \<open>option\<close>. Timestamps are readings of the clock,
  in seconds. \<open>is_public\<close> holds the integer the server writes, 0 or 1.
\<close>

record 'o reality_columns =
  r_id :: string
  r_user_session :: "string option"
  r_title :: string
  r_description :: "string option"
  r_original_event :: string
  r_outcomes :: 'o
  r_probability_score :: rat
  r_impact_score :: int
  r_created_at :: nat
  r_updated_at :: nat

text \<open>
  A stored row holds the outcomes as a text, or NULL; a row of the listing holds the
  value read from that text.
\<close>

type_synonym reality_row = "string option reality_columns"

type_synonym reality_item = "json reality_columns"

record tree_row =
  t_id :: string
  t_user_session :: "string option"
  t_tree_data :: "string option"
  t_share_token :: "string option"
  t_is_public :: int
  t_view_count :: int
  t_created_at :: nat

record analytics_row =
  a_id :: nat
  a_user_session :: "string option"
  a_event_type :: string
  a_event_data :: "string option"
  a_timestamp :: nat

text \<open>
  The state that one request hands to the next: the tables, each in insertion order,
  and how many values have been taken from \<open>Math.random\<close> and from \<open>uuidv4\<close>.
\<close>

record state =
  realities :: "reality_row list"
  reality_trees :: "tree_row list"
  analytics :: "analytics_row list"
  rand_used :: nat
  uuid_used :: nat

definition Math_random :: "env \<Rightarrow> state \<Rightarrow> rat \<times> state" where
  "Math_random E s = (random E (rand_used s), s\<lparr>rand_used := Suc (rand_used s)\<rparr>)"

definition uuidv4 :: "env \<Rightarrow> state \<Rightarrow> string \<times> state" where
  "uuidv4 E s = (uuid E (uuid_used s), s\<lparr>uuid_used := Suc (uuid_used s)\<rparr>)"

section \<open>The narrative generator: class \<open>AIService\<close>\<close>

definition fallbackOutcomes :: "string list" where
  "fallbackOutcomes =
     [''opened unexpected opportunities'', ''created new challenges to overcome'',
      ''led to meeting influential people'', ''sparked a passion for learning'',
      ''resulted in a career pivot'', ''strengthened personal relationships'',
      ''developed valuable life skills'', ''inspired creative pursuits'',
      ''built financial independence'', ''fostered personal growth'']"

definition fallbackConsequences :: "string list" where
  "fallbackConsequences =
     [''starting a successful business'', ''moving to a dream location'',
      ''discovering hidden talents'', ''building lasting friendships'',
      ''overcoming personal fears'', ''achieving work-life balance'',
      ''contributing to meaningful causes'', ''mastering new technologies'']"

text \<open>
  \<open>xs[i]\<close> is \<open>undefined\<close> outside the array, and a template literal prints
  \<open>undefined\<close> as that word.
\<close>

definition element :: "'a list \<Rightarrow> int \<Rightarrow> 'a option" where
  "element xs i = (if 0 \<le> i \<and> i < int (length xs) then Some (xs ! nat i) else None)"

definition interpolate :: "string option \<Rightarrow> string" where
  "interpolate x = (case x of None \<Rightarrow> ''undefined'' | Some s \<Rightarrow> s)"

record outcome =
  o_id :: string
  o_title :: string
  o_description :: string
  o_probability :: rat
  o_impact :: int
  o_consequences :: "string option list"

record reality =
  title :: string
  description :: "string option"
  outcomes :: "outcome list"
  probability :: rat
  impact :: int

text \<open>
  One turn of the loop of \<open>generateOutcomes\<close>, with the calls in the order in which the
  source evaluates them: the two draws for the pools, then, in the object literal,
  \<open>uuidv4()\<close> and the draws for \<open>probability\<close> and \<open>impact\<close>.
\<close>

definition make_outcome :: "env \<Rightarrow> nat \<Rightarrow> state \<Rightarrow> outcome \<times> state" where
  "make_outcome E i s0 =
     (let (r1, s1) = Math_random E s0;
          outcome = element fallbackOutcomes
            (Math_floor (times64 r1 (of_nat (length fallbackOutcomes))));
          (r2, s2) = Math_random E s1;
          consequence = element fallbackConsequences
            (Math_floor (times64 r2 (of_nat (length fallbackConsequences))));
          (u, s3) = uuidv4 E s2;
          (r3, s4) = Math_random E s3;
          (r4, s5) = Math_random E s4
      in (\<lparr>o_id = u,
           o_title = ''Path '' @ decimal (i + 1),
           o_description = ''This decision '' @ interpolate outcome
             @ '', ultimately leading to '' @ interpolate consequence,
           o_probability = plus64 (times64 r3 (literal (8 / 10))) (literal (1 / 10)),
           o_impact = Math_floor (times64 r4 10) + 1,
           o_consequences = [consequence]\<rparr>, s5))"

function outcomes_loop ::
  "env \<Rightarrow> int \<Rightarrow> nat \<Rightarrow> outcome list \<Rightarrow> state \<Rightarrow> outcome list \<times> state" where
  "outcomes_loop E numOutcomes i acc s =
     (if int i < numOutcomes
      then (let (x, s') = make_outcome E i s
            in outcomes_loop E numOutcomes (Suc i) (acc @ [x]) s')
      else (acc, s))"
  by pat_completeness auto
termination
  by (relation "measure (\<lambda>(E, numOutcomes, i, acc, s). nat (numOutcomes - int i))") auto

declare outcomes_loop.simps [simp del]

text \<open>\<open>generateOutcomes\<close> does not read its argument.\<close>

definition generateOutcomes :: "env \<Rightarrow> 'a \<Rightarrow> state \<Rightarrow> outcome list \<times> state" where
  "generateOutcomes E event s =
     (let (r, s1) = Math_random E s;
          numOutcomes = Math_floor (times64 r 3) + 2
      in outcomes_loop E numOutcomes 0 [] s1)"

text \<open>
  \<open>generateDescription\<close> builds the four templates first, and \<open>event.toLowerCase()\<close>
  throws a TypeError for an event that is not a string, before any draw.
\<close>

definition generateDescription ::
  "env \<Rightarrow> json \<Rightarrow> state \<Rightarrow> (js_error + string option) \<times> state" where
  "generateDescription E event s =
     (case event of
        JStr ev \<Rightarrow>
          (let templates =
                 [''In this reality, '' @ toLowerCase ev
                    @ '' fundamentally changed your life trajectory'',
                  ''The decision to '' @ toLowerCase ev
                    @ '' created a cascade of unexpected events'',
                  ''By choosing '' @ toLowerCase ev
                    @ '', you entered a completely different timeline'',
                  ''This alternative where '' @ toLowerCase ev @ '' shaped who you became''];
               (r, s1) = Math_random E s
           in (Inr (element templates (Math_floor (times64 r (of_nat (length templates))))), s1))
      | _ \<Rightarrow> (Inl TypeError, s))"

text \<open>
  The method \<open>extractTitle\<close> on a value of any type: \<open>event.replace\<close> is a function for
  a string only.
\<close>

definition call_extractTitle :: "json \<Rightarrow> js_error + string" where
  "call_extractTitle event = (case event of JStr ev \<Rightarrow> Inr (extractTitle ev) | _ \<Rightarrow> Inl TypeError)"

definition generateFallbackReality ::
  "env \<Rightarrow> json \<Rightarrow> state \<Rightarrow> (js_error + reality) \<times> state" where
  "generateFallbackReality E event s =
     (case call_extractTitle event of
        Inl e \<Rightarrow> (Inl e, s)
      | Inr t \<Rightarrow>
          (case event of
             JStr ev \<Rightarrow>
               (let (u, s1) = uuidv4 E s
                in (Inr \<lparr>title = t,
                         description =
                           Some (''A reality where '' @ toLowerCase ev
                                 @ '' led to profound changes''),
                         outcomes =
                           [\<lparr>o_id = u,
                             o_title = ''Alternative Path'',
                             o_description = ''This path led to unexpected developments'',
                             o_probability = literal (6 / 10),
                             o_impact = 7,
                             o_consequences = [Some ''significant life changes'']\<rparr>],
                         probability = literal (5 / 10),
                         impact = 6\<rparr>, s1))
           | _ \<Rightarrow> (Inl TypeError, s)))"

text \<open>
  The body of the \<open>try\<close> block of \<open>generateReality\<close>: the outcomes, the description,
  then the object literal with the title and the two draws. The first exception ends it.
\<close>

definition try_generateReality ::
  "env \<Rightarrow> json \<Rightarrow> state \<Rightarrow> (js_error + reality) \<times> state" where
  "try_generateReality E originalEvent s =
     (let (outs, s1) = generateOutcomes E originalEvent s
      in case generateDescription E originalEvent s1 of
           (Inl e, s2) \<Rightarrow> (Inl e, s2)
         | (Inr d, s2) \<Rightarrow>
             (case call_extractTitle originalEvent of
                Inl e \<Rightarrow> (Inl e, s2)
              | Inr t \<Rightarrow>
                  (let (r1, s3) = Math_random E s2;
                       (r2, s4) = Math_random E s3
                   in (Inr \<lparr>title = t,
                            description = d,
                            outcomes = outs,
                            probability = plus64 (times64 r1 (literal (7 / 10))) (literal (2 / 10)),
                            impact = Math_floor (times64 r2 8) + 3\<rparr>, s4))))"

text \<open>\<open>catch (error)\<close>: whatever the block threw, the fallback is returned in its place.\<close>

definition generateReality ::
  "env \<Rightarrow> json \<Rightarrow> state \<Rightarrow> (js_error + reality) \<times> state" where
  "generateReality E originalEvent s =
     (case try_generateReality E originalEvent s of
        (Inr r, s1) \<Rightarrow> (Inr r, s1)
      | (Inl e, s1) \<Rightarrow> generateFallbackReality E originalEvent s1)"

section \<open>\<open>JSON.parse\<close> and \<open>JSON.stringify\<close>\<close>

subsection \<open>Reading a text\<close>

text \<open>
  \<open>JSON.parse\<close> as one pass over the characters of the text, with a stack of the
  arrays and objects that are open. It accepts the JSON grammar of ECMAScript and
  throws a SyntaxError for every other text.

  A frame of the stack is an open array with its elements so far, or an open object
  with its members so far and the key that waits for its value. Writing a key twice
  keeps the member's first place and the last value, as assignment to a property does.
\<close>

datatype frame = FArr "json list" | FObj "(string \<times> json) list" string

fun put :: "string \<Rightarrow> json \<Rightarrow> (string \<times> json) list \<Rightarrow> (string \<times> json) list" where
  "put k v [] = [(k, v)]"
| "put k v ((k', v') # ms) = (if k = k' then (k, v) # ms else (k', v') # put k v ms)"

text \<open>What the grammar allows next.\<close>

datatype mode =
    Value
  | FirstElement
  | FirstKey
  | Key
  | Colon
  | After
  | Done json

text \<open>
  The parts of a number: after the minus sign, after a leading zero, in the digits of
  the integer, after the point, in the digits of the fraction, after \<open>e\<close>, after the
  sign of the exponent, in the digits of the exponent. A number may end after a
  leading zero and inside a run of digits.
\<close>

datatype numpart = NMinus | NZero | NInt | NPoint | NFrac | NExp | NExpSign | NExpDigits

record number =
  negative :: bool
  digits :: nat
  scale :: nat
  exp_negative :: bool
  exponent :: nat

text \<open>The token that is being read.\<close>

datatype lexeme =
    Between
  | InString string
  | Escape string
  | Unicode string "nat list"
  | InLiteral string json
  | InNumber numpart number

datatype config = Config "frame list" mode lexeme | Failed

definition json_space :: "char \<Rightarrow> bool" where
  "json_space c = (let n = (of_char c :: nat) in n = 9 \<or> n = 10 \<or> n = 13 \<or> n = 32)"

definition digit_of :: "char \<Rightarrow> nat option" where
  "digit_of c =
     (let n = (of_char c :: nat) in if 48 \<le> n \<and> n \<le> 57 then Some (n - 48) else None)"

definition hex_of :: "char \<Rightarrow> nat option" where
  "hex_of c =
     (let n = (of_char c :: nat)
      in if 48 \<le> n \<and> n \<le> 57 then Some (n - 48)
         else if 65 \<le> n \<and> n \<le> 70 then Some (n - 55)
         else if 97 \<le> n \<and> n \<le> 102 then Some (n - 87)
         else None)"

text \<open>
  The Number a numeral denotes: the binary64 value nearest to its decimal value.
\<close>

definition number_value :: "number \<Rightarrow> rat" where
  "number_value n =
     (let e = (if exp_negative n then - int (exponent n) else int (exponent n)) - int (scale n);
          m = of_nat (digits n) * 10 powi e
      in binary64 (if negative n then - m else m))"

text \<open>A value is complete: it goes to the frame on top, or it is the value of the text.\<close>

fun deliver :: "frame list \<Rightarrow> json \<Rightarrow> config" where
  "deliver [] v = Config [] (Done v) Between"
| "deliver (FArr xs # st) v = Config (FArr (xs @ [v]) # st) After Between"
| "deliver (FObj ms k # st) v = Config (FObj (put k v ms) k # st) After Between"

definition value_ok :: "mode \<Rightarrow> bool" where
  "value_ok m = (m = Value \<or> m = FirstElement)"

definition key_ok :: "mode \<Rightarrow> bool" where
  "key_ok m = (m = FirstKey \<or> m = Key)"

text \<open>A string is complete: a key of the open object, or a value.\<close>

definition close_string :: "frame list \<Rightarrow> mode \<Rightarrow> string \<Rightarrow> config" where
  "close_string st m s =
     (if key_ok m
      then (case st of FObj ms k # st' \<Rightarrow> Config (FObj ms s # st') Colon Between | _ \<Rightarrow> Failed)
      else deliver st (JStr s))"

text \<open>A character between two tokens.\<close>

definition between :: "frame list \<Rightarrow> mode \<Rightarrow> char \<Rightarrow> config" where
  "between st m c =
     (if json_space c then Config st m Between
      else if c = CHR ''['' then
        (if value_ok m then Config (FArr [] # st) FirstElement Between else Failed)
      else if c = CHR ''{'' then
        (if value_ok m then Config (FObj [] [] # st) FirstKey Between else Failed)
      else if c = CHR '']'' then
        (case st of
           FArr xs # st' \<Rightarrow> if m = FirstElement \<or> m = After then deliver st' (JArr xs) else Failed
         | _ \<Rightarrow> Failed)
      else if c = CHR ''}'' then
        (case st of
           FObj ms k # st' \<Rightarrow> if m = FirstKey \<or> m = After then deliver st' (JObj ms) else Failed
         | _ \<Rightarrow> Failed)
      else if c = CHR '','' then
        (if m = After
         then (case st of
                 FArr xs # st' \<Rightarrow> Config st Value Between
               | FObj ms k # st' \<Rightarrow> Config st Key Between
               | [] \<Rightarrow> Failed)
         else Failed)
      else if c = CHR '':'' then
        (if m = Colon then Config st Value Between else Failed)
      else if c = CHR 0x22 then
        (if value_ok m \<or> key_ok m then Config st m (InString []) else Failed)
      else if \<not> value_ok m then Failed
      else if c = CHR ''t'' then Config st m (InLiteral ''rue'' (JBool True))
      else if c = CHR ''f'' then Config st m (InLiteral ''alse'' (JBool False))
      else if c = CHR ''n'' then Config st m (InLiteral ''ull'' JNull)
      else if c = CHR ''-'' then
        Config st m (InNumber NMinus
          \<lparr>negative = True, digits = 0, scale = 0, exp_negative = False, exponent = 0\<rparr>)
      else (case digit_of c of
              None \<Rightarrow> Failed
            | Some d \<Rightarrow>
                Config st m (InNumber (if d = 0 then NZero else NInt)
                  \<lparr>negative = False, digits = d, scale = 0, exp_negative = False,
                    exponent = 0\<rparr>)))"

text \<open>
  A character inside a number: the part of the number it leads to, if the numeral may
  go on with it.
\<close>

definition number_next :: "numpart \<Rightarrow> number \<Rightarrow> char \<Rightarrow> (numpart \<times> number) option" where
  "number_next p n c =
     (case digit_of c of
        Some d \<Rightarrow>
          (if p = NMinus then Some (if d = 0 then NZero else NInt, n\<lparr>digits := d\<rparr>)
           else if p = NZero then None
           else if p = NInt then Some (NInt, n\<lparr>digits := 10 * digits n + d\<rparr>)
           else if p = NPoint \<or> p = NFrac
             then Some (NFrac, n\<lparr>digits := 10 * digits n + d, scale := Suc (scale n)\<rparr>)
           else Some (NExpDigits, n\<lparr>exponent := 10 * exponent n + d\<rparr>))
      | None \<Rightarrow>
          (if c = CHR ''.'' \<and> (p = NZero \<or> p = NInt) then Some (NPoint, n)
           else if (c = CHR ''e'' \<or> c = CHR ''E'') \<and> (p = NZero \<or> p = NInt \<or> p = NFrac)
             then Some (NExp, n)
           else if c = CHR ''+'' \<and> p = NExp then Some (NExpSign, n)
           else if c = CHR ''-'' \<and> p = NExp then Some (NExpSign, n\<lparr>exp_negative := True\<rparr>)
           else None))"

definition number_complete :: "numpart \<Rightarrow> bool" where
  "number_complete p = (p = NZero \<or> p = NInt \<or> p = NFrac \<or> p = NExpDigits)"

text \<open>
  The escapes of a string. The four hexadecimal digits of \<open>\u\<close> give a code unit; the
  strings of the model hold the code units below 256, and \<open>char_of\<close> keeps a larger one
  modulo 256.
\<close>

definition escape_of :: "char \<Rightarrow> char option" where
  "escape_of c =
     (if c = CHR 0x22 \<or> c = CHR 0x5C \<or> c = CHR ''/'' then Some c
      else if c = CHR ''b'' then Some (CHR 0x08)
      else if c = CHR ''f'' then Some (CHR 0x0C)
      else if c = CHR ''n'' then Some (CHR 0x0A)
      else if c = CHR ''r'' then Some (CHR 0x0D)
      else if c = CHR ''t'' then Some (CHR 0x09)
      else None)"

definition code_unit :: "nat list \<Rightarrow> nat" where
  "code_unit hs = foldl (\<lambda>a h. 16 * a + h) 0 hs"

text \<open>
  A number ends where the next character cannot go on with it (and at the end of the
  text): the numeral must be complete, and its value is delivered.
\<close>

definition settle :: "config \<Rightarrow> config" where
  "settle cfg =
     (case cfg of
        Config st m (InNumber p n) \<Rightarrow>
          if number_complete p then deliver st (JNum (number_value n)) else Failed
      | _ \<Rightarrow> cfg)"

definition step :: "config \<Rightarrow> char \<Rightarrow> config" where
  "step cfg c =
     (case cfg of
        Failed \<Rightarrow> Failed
      | Config st m Between \<Rightarrow> between st m c
      | Config st m (InString s) \<Rightarrow>
          (if c = CHR 0x22 then close_string st m s
           else if c = CHR 0x5C then Config st m (Escape s)
           else if (of_char c :: nat) < 32 then Failed
           else Config st m (InString (s @ [c])))
      | Config st m (Escape s) \<Rightarrow>
          (if c = CHR ''u'' then Config st m (Unicode s [])
           else (case escape_of c of
                   None \<Rightarrow> Failed
                 | Some x \<Rightarrow> Config st m (InString (s @ [x]))))
      | Config st m (Unicode s hs) \<Rightarrow>
          (case hex_of c of
             None \<Rightarrow> Failed
           | Some h \<Rightarrow>
               (if length hs = 3
                then Config st m (InString (s @ [char_of (code_unit (hs @ [h]))]))
                else Config st m (Unicode s (hs @ [h]))))
      | Config st m (InLiteral rest v) \<Rightarrow>
          (case rest of
             [] \<Rightarrow> Failed
           | x # xs \<Rightarrow>
               (if c \<noteq> x then Failed
                else if xs = [] then deliver st v
                else Config st m (InLiteral xs v)))
      | Config st m (InNumber p n) \<Rightarrow>
          (case number_next p n c of
             Some (p', n') \<Rightarrow> Config st m (InNumber p' n')
           | None \<Rightarrow>
               (case settle cfg of
                  Config st' m' l \<Rightarrow> between st' m' c
                | Failed \<Rightarrow> Failed)))"

text \<open>
  The end of the text: a number that is being read ends there, and the text is a JSON
  text when exactly one value is complete and nothing is open.
\<close>

definition finish :: "config \<Rightarrow> js_error + json" where
  "finish cfg =
     (case settle cfg of
        Config st (Done v) Between \<Rightarrow> Inr v
      | _ \<Rightarrow> Inl SyntaxError)"

text \<open>The automaton over a text, and \<open>JSON.parse\<close>.\<close>

definition run :: "config \<Rightarrow> string \<Rightarrow> config" where
  "run cfg text = foldl step cfg text"

definition JSON_parse :: "string \<Rightarrow> js_error + json" where
  "JSON_parse text = finish (run (Config [] Value Between) text)"

subsection \<open>Writing a value\<close>

text \<open>
  \<open>QuoteJSONString\<close>: the quotation mark and the backslash are escaped, the control
  characters have their short escapes or \<open>\u00XX\<close>, and every other character stands
  for itself.
\<close>

definition hex_digit :: "nat \<Rightarrow> char" where
  "hex_digit n = (if n < 10 then char_of (48 + n) else char_of (87 + n))"

definition quote_char :: "char \<Rightarrow> string" where
  "quote_char c =
     (let n = (of_char c :: nat)
      in if c = CHR 0x22 then [CHR 0x5C, CHR 0x22]
         else if c = CHR 0x5C then [CHR 0x5C, CHR 0x5C]
         else if n = 8 then [CHR 0x5C, CHR ''b'']
         else if n = 9 then [CHR 0x5C, CHR ''t'']
         else if n = 10 then [CHR 0x5C, CHR ''n'']
         else if n = 12 then [CHR 0x5C, CHR ''f'']
         else if n = 13 then [CHR 0x5C, CHR ''r'']
         else if n < 32 then [CHR 0x5C, CHR ''u'', CHR ''0'', CHR ''0'',
                              hex_digit (n div 16), hex_digit (n mod 16)]
         else [c])"

definition quote :: "string \<Rightarrow> string" where
  "quote s = [CHR 0x22] @ concat (map quote_char s) @ [CHR 0x22]"

fun join :: "string \<Rightarrow> string list \<Rightarrow> string" where
  "join sep [] = []"
| "join sep [x] = x"
| "join sep (x # y # ys) = x @ sep @ join sep (y # ys)"

text \<open>
  \<open>Number::toString\<close>: the decimal numeral for an integral Number below \<open>10 ^ 21\<close>,
  and the environment's digits for every other Number.
\<close>

definition Number_toString :: "env \<Rightarrow> rat \<Rightarrow> string" where
  "Number_toString E x =
     (if of_int \<lfloor>x\<rfloor> = x \<and> \<bar>x\<bar> < 10 ^ 21
      then (if x < 0 then ''-'' else []) @ decimal (nat \<bar>\<lfloor>x\<rfloor>\<bar>)
      else fraction_text E x)"

fun stringify :: "env \<Rightarrow> json \<Rightarrow> string" where
  "stringify E JNull = ''null''"
| "stringify E (JBool b) = (if b then ''true'' else ''false'')"
| "stringify E (JNum x) = Number_toString E x"
| "stringify E (JStr s) = quote s"
| "stringify E (JArr xs) = ''['' @ join '','' (map (stringify E) xs) @ '']''"
| "stringify E (JObj ms) =
     ''{'' @ join '','' (map (\<lambda>m. quote (fst m) @ '':'' @ stringify E (snd m)) ms) @ ''}''"

text \<open>\<open>JSON.stringify(undefined)\<close> is \<open>undefined\<close>, not a text.\<close>

definition JSON_stringify :: "env \<Rightarrow> json option \<Rightarrow> string option" where
  "JSON_stringify E v = map_option (stringify E) v"

text \<open>
  The JSON value of the array \<open>reality.outcomes\<close>, property by property in the order
  of the object literal; an \<open>undefined\<close> element of an array is written as \<open>null\<close>.
\<close>

definition outcome_json :: "outcome \<Rightarrow> json" where
  "outcome_json x =
     JObj [(''id'', JStr (o_id x)),
           (''title'', JStr (o_title x)),
           (''description'', JStr (o_description x)),
           (''probability'', JNum (o_probability x)),
           (''impact'', JNum (of_int (o_impact x))),
           (''consequences'',
              JArr (map (\<lambda>c. case c of None \<Rightarrow> JNull | Some t \<Rightarrow> JStr t) (o_consequences x)))]"

section \<open>The request handlers\<close>

subsection \<open>Statements on the store\<close>

text \<open>
  \<open>INSERT\<close> fails when it would break a constraint of the schema: the primary key
  \<open>id\<close>, and \<open>share_token UNIQUE\<close>, which NULL never breaks. Failures of the store
  that do not come from the data (the disk, the connection) are outside the model.
\<close>

definition insert_reality :: "reality_row \<Rightarrow> state \<Rightarrow> state option" where
  "insert_reality row s =
     (if r_id row \<in> set (map r_id (realities s)) then None
      else Some (s\<lparr>realities := realities s @ [row]\<rparr>))"

definition insert_tree :: "tree_row \<Rightarrow> state \<Rightarrow> state option" where
  "insert_tree row s =
     (if t_id row \<in> set (map t_id (reality_trees s)) then None
      else if t_share_token row \<noteq> None
              \<and> t_share_token row \<in> set (map t_share_token (reality_trees s)) then None
      else Some (s\<lparr>reality_trees := reality_trees s @ [row]\<rparr>))"

text \<open>\<open>AUTOINCREMENT\<close>: one more than the largest id the table has held.\<close>

definition next_id :: "analytics_row list \<Rightarrow> nat" where
  "next_id rows = Suc (foldr max (map a_id rows) 0)"

text \<open>
  \<open>logEvent\<close> writes one analytics row. Its callback only logs an error, and the
  insert has no constraint to break.
\<close>

definition logEvent :: "env \<Rightarrow> nat \<Rightarrow> string option \<Rightarrow> string \<Rightarrow> json \<Rightarrow> state \<Rightarrow> state" where
  "logEvent E now userSession eventType eventData s =
     s\<lparr>analytics := analytics s @
        [\<lparr>a_id = next_id (analytics s),
          a_user_session = userSession,
          a_event_type = eventType,
          a_event_data = JSON_stringify E (Some eventData),
          a_timestamp = now\<rparr>]\<rparr>"

subsection \<open>Requests and responses\<close>

text \<open>
  The properties that the handlers read from \<open>req.body\<close>, each absent (\<open>None\<close>) or
  present. A session key, when present, is a text or \<open>null\<close>; what the driver stores
  for a key of another type is outside the model.
\<close>

record request_body =
  event :: "json option"
  userSession :: "string option option"
  treeData :: "json option"
  makePublic :: "json option"
  reality_in :: "json option"

text \<open>
  The bodies of the responses, one constructor for each shape the handlers send:
  \<open>{error}\<close>; \<open>{status, timestamp}\<close>; \<open>{id, userSession, ...reality, timestamp}\<close>;
  \<open>{realities, count}\<close>; \<open>{treeId, shareToken, shareUrl}\<close>;
  \<open>{id, treeData, viewCount, createdAt}\<close>; \<open>{realitiesCreated, treesSaved,
  totalInteractions, diversityScore}\<close>; and, of the body of \<open>enhance-reality\<close>, the reality
  it was given and the \<open>alternativeOutcomes\<close> (its other properties are fixed texts).
\<close>

datatype body =
    ErrorBody string
  | HealthBody nat
  | RealityBody string "string option" reality nat
  | RealitiesBody "reality_item list" nat
  | TreeSavedBody string "string option" "string option"
  | SharedTreeBody string json int nat
  | StatsBody nat nat nat int
  | EnhancedBody json "outcome list"

record response =
  status :: nat
  body :: body

definition failure :: "nat \<Rightarrow> string \<Rightarrow> response" where
  "failure code message = \<lparr>status = code, body = ErrorBody message\<rparr>"

definition success :: "body \<Rightarrow> response" where
  "success b = \<lparr>status = 200, body = b\<rparr>"

text \<open>
  What a request ends in: a response, or an exception that no handler catches (it is
  thrown inside a callback of the driver, and the client gets no response).
\<close>

type_synonym reply = "js_error + response"

text \<open>
  The default of a destructuring, \<open>userSession = uuidv4()\<close>: it is evaluated when the
  property is absent, and only then.
\<close>

definition session_or_new :: "env \<Rightarrow> request_body \<Rightarrow> state \<Rightarrow> string option \<times> state" where
  "session_or_new E b s =
     (case userSession b of
        None \<Rightarrow> (let (u, s1) = uuidv4 E s in (Some u, s1))
      | Some v \<Rightarrow> (v, s))"

subsection \<open>\<open>POST /api/realities\<close>\<close>

text \<open>
  \<open>!event || event.trim().length === 0\<close>: a falsy event is refused at once; a truthy
  event that is not a string has no \<open>trim\<close>, and the TypeError goes to the handler's
  \<open>catch\<close>. The same \<open>catch\<close> takes an exception of \<open>generateReality\<close>.
\<close>

definition post_realities :: "env \<Rightarrow> nat \<Rightarrow> request_body \<Rightarrow> state \<Rightarrow> reply \<times> state" where
  "post_realities E now b s0 =
     (let (session, s1) = session_or_new E b s0
      in if \<not> truthy (event b)
         then (Inr (failure 400 ''Event description is required''), s1)
         else (case event b of
                 Some (JStr ev) \<Rightarrow>
                   (if length (trim ev) = 0
                    then (Inr (failure 400 ''Event description is required''), s1)
                    else (case generateReality E (JStr ev) s1 of
                            (Inl e, s2) \<Rightarrow> (Inr (failure 500 ''Failed to generate reality''), s2)
                          | (Inr r, s2) \<Rightarrow>
                              (let (realityId, s3) = uuidv4 E s2
                               in case insert_reality
                                      \<lparr>r_id = realityId,
                                        r_user_session = session,
                                        r_title = title r,
                                        r_description = description r,
                                        r_original_event = ev,
                                        r_outcomes =
                                          JSON_stringify E (Some (JArr (map outcome_json (outcomes r)))),
                                        r_probability_score = probability r,
                                        r_impact_score = impact r,
                                        r_created_at = now,
                                        r_updated_at = now\<rparr> s3 of
                                    None \<Rightarrow> (Inr (failure 500 ''Failed to save reality''), s3)
                                  | Some s4 \<Rightarrow>
                                      (Inr (success (RealityBody realityId session r now)),
                                       logEvent E now session ''create_reality''
                                         (JObj [(''event'', JStr ev), (''realityId'', JStr realityId)])
                                         s4))))
               | _ \<Rightarrow> (Inr (failure 500 ''Failed to generate reality''), s1)))"

subsection \<open>\<open>GET /api/realities/:userSession\<close>\<close>

text \<open>
  \<open>parseInt\<close> without a radix: leading whitespace and a sign are skipped, \<open>0x\<close> selects
  base 16, and the longest run of digits is the number; there is no number (NaN, here
  \<open>None\<close>) when no digit stands there.
\<close>

fun digits_value :: "nat \<Rightarrow> nat \<Rightarrow> string \<Rightarrow> nat" where
  "digits_value radix acc [] = acc"
| "digits_value radix acc (c # cs) =
     (case hex_of c of
        None \<Rightarrow> acc
      | Some d \<Rightarrow> if d < radix then digits_value radix (radix * acc + d) cs else acc)"

definition is_digit :: "nat \<Rightarrow> char \<Rightarrow> bool" where
  "is_digit radix c = (case hex_of c of None \<Rightarrow> False | Some d \<Rightarrow> d < radix)"

definition parseInt :: "string \<Rightarrow> rat option" where
  "parseInt s =
     (let s1 = dropWhile is_space s;
          neg = (take 1 s1 = ''-'');
          s2 = (if take 1 s1 = ''-'' \<or> take 1 s1 = ''+'' then drop 1 s1 else s1);
          hex = (take 2 s2 = ''0x'' \<or> take 2 s2 = ''0X'');
          radix = (if hex then 16 else 10);
          s3 = (if hex then drop 2 s2 else s2)
      in case s3 of
           [] \<Rightarrow> None
         | c # cs \<Rightarrow>
             if is_digit radix c
             then Some (binary64 ((if neg then - 1 else 1) * of_nat (digits_value radix 0 s3)))
             else None)"

text \<open>
  The query of the listing. \<open>ORDER BY created_at DESC\<close> leaves the order of rows with
  equal timestamps open; here the row inserted later comes first. In SQLite a negative
  \<open>LIMIT\<close> is no limit, a negative \<open>OFFSET\<close> is none, and a \<open>LIMIT\<close> or \<open>OFFSET\<close> that is
  not a number (the driver binds NaN as NULL) is an error of the statement.
\<close>

definition select_realities ::
  "string \<Rightarrow> rat option \<Rightarrow> rat option \<Rightarrow> state \<Rightarrow> reality_row list option" where
  "select_realities session lim_num off_num s =
     (case (lim_num, off_num) of
        (Some l, Some k) \<Rightarrow>
          (let rows = rev (sort_key r_created_at
                 (filter (\<lambda>r. r_user_session r = Some session) (realities s)));
               rest = drop (nat \<lfloor>k\<rfloor>) rows
           in Some (if l < 0 then rest else take (nat \<lfloor>l\<rfloor>) rest))
      | _ \<Rightarrow> None)"

text \<open>
  \<open>row.outcomes || '[]'\<close> takes the text \<open>[]\<close> for NULL and for the empty text. The
  \<open>map\<close> goes through the rows in order, and the first text that \<open>JSON.parse\<close> refuses
  ends it with the SyntaxError.
\<close>

definition outcomes_text :: "reality_row \<Rightarrow> string" where
  "outcomes_text row = (case r_outcomes row of None \<Rightarrow> ''[]'' | Some t \<Rightarrow> if t = [] then ''[]'' else t)"

definition item :: "reality_row \<Rightarrow> json \<Rightarrow> reality_item" where
  "item row v =
     \<lparr>r_id = r_id row, r_user_session = r_user_session row, r_title = r_title row,
      r_description = r_description row, r_original_event = r_original_event row,
      r_outcomes = v,
      r_probability_score = r_probability_score row, r_impact_score = r_impact_score row,
      r_created_at = r_created_at row, r_updated_at = r_updated_at row\<rparr>"

fun parse_rows :: "reality_row list \<Rightarrow> js_error + reality_item list" where
  "parse_rows [] = Inr []"
| "parse_rows (row # rows) =
     (case JSON_parse (outcomes_text row) of
        Inl e \<Rightarrow> Inl e
      | Inr v \<Rightarrow> (case parse_rows rows of Inl e \<Rightarrow> Inl e | Inr vs \<Rightarrow> Inr (item row v # vs)))"

text \<open>
  The handler: \<open>limit\<close> and \<open>offset\<close> are the texts of the query string, with the
  defaults 20 and 0 when absent. The callback of \<open>db.all\<close> has no \<open>try\<close> around it.
\<close>

definition get_realities ::
  "string \<Rightarrow> string option \<Rightarrow> string option \<Rightarrow> state \<Rightarrow> reply \<times> state" where
  "get_realities session limit offset s =
     (case select_realities session
             (parseInt (case limit of None \<Rightarrow> ''20'' | Some t \<Rightarrow> t))
             (parseInt (case offset of None \<Rightarrow> ''0'' | Some t \<Rightarrow> t)) s of
        None \<Rightarrow> (Inr (failure 500 ''Failed to fetch realities''), s)
      | Some rows \<Rightarrow>
          (case parse_rows rows of
             Inl e \<Rightarrow> (Inl e, s)
           | Inr items \<Rightarrow> (Inr (success (RealitiesBody items (length rows))), s)))"

subsection \<open>\<open>POST /api/trees\<close>\<close>

text \<open>
  \<open>makePublic = false\<close> is the default for an absent property; the value is then used
  for its truth. The request also carries the protocol and the host, for the share
  address. \<open>shareToken ? url : null\<close> tests the token for truth as well.
\<close>

definition post_trees ::
  "env \<Rightarrow> nat \<Rightarrow> string \<Rightarrow> string \<Rightarrow> request_body \<Rightarrow> state \<Rightarrow> reply \<times> state" where
  "post_trees E now protocol host b s0 =
     (let (session, s1) = session_or_new E b s0;
          flag = (case makePublic b of None \<Rightarrow> JBool False | Some v \<Rightarrow> v);
          (treeId, s2) = uuidv4 E s1;
          (shareToken, s3) =
            (if truthy (Some flag) then (let (u, s') = uuidv4 E s2 in (Some u, s'))
             else (None, s2))
      in case insert_tree
             \<lparr>t_id = treeId,
               t_user_session = session,
               t_tree_data = JSON_stringify E (treeData b),
               t_share_token = shareToken,
               t_is_public = (if truthy (Some flag) then 1 else 0),
               t_view_count = 0,
               t_created_at = now\<rparr> s3 of
           None \<Rightarrow> (Inr (failure 500 ''Failed to save tree''), s3)
         | Some s4 \<Rightarrow>
             (Inr (success (TreeSavedBody treeId shareToken
                (case shareToken of
                   None \<Rightarrow> None
                 | Some t \<Rightarrow>
                     if t = [] then None
                     else Some (protocol @ ''://'' @ host @ ''/share/'' @ t)))),
              logEvent E now session ''save_tree''
                (JObj [(''treeId'', JStr treeId), (''makePublic'', flag)]) s4))"

subsection \<open>\<open>GET /api/trees/share/:shareToken\<close>\<close>

text \<open>
  \<open>db.get\<close> gives the first row that the query selects. The \<open>UPDATE\<close> is sent before
  the body of the response is built; \<open>JSON.parse(null)\<close> reads the text \<open>null\<close>.
\<close>

definition increment_views :: "string \<Rightarrow> tree_row list \<Rightarrow> tree_row list" where
  "increment_views i rows =
     map (\<lambda>t. if t_id t = i then t\<lparr>t_view_count := t_view_count t + 1\<rparr> else t) rows"

definition get_shared_tree :: "string \<Rightarrow> state \<Rightarrow> reply \<times> state" where
  "get_shared_tree shareToken s =
     (case find (\<lambda>t. t_share_token t = Some shareToken \<and> t_is_public t = 1) (reality_trees s) of
        None \<Rightarrow> (Inr (failure 404 ''Shared tree not found''), s)
      | Some row \<Rightarrow>
          (let s1 = s\<lparr>reality_trees := increment_views (t_id row) (reality_trees s)\<rparr>
           in case JSON_parse (case t_tree_data row of None \<Rightarrow> ''null'' | Some t \<Rightarrow> t) of
                Inl e \<Rightarrow> (Inl e, s1)
              | Inr v \<Rightarrow>
                  (Inr (success (SharedTreeBody (t_id row) v (t_view_count row + 1)
                     (t_created_at row))), s1)))"

subsection \<open>\<open>GET /api/stats/:userSession\<close>\<close>

text \<open>
  A count comes back as a Number. The score is
  \<open>Math.floor(reality_count * 1.7 + interaction_count * 0.3)\<close>, in binary64.
\<close>

definition to_number :: "nat \<Rightarrow> rat" where
  "to_number n = binary64 (of_nat n)"

definition diversityScore :: "nat \<Rightarrow> nat \<Rightarrow> int" where
  "diversityScore reality_count interaction_count =
     Math_floor (plus64 (times64 (to_number reality_count) (literal (17 / 10)))
                        (times64 (to_number interaction_count) (literal (3 / 10))))"

definition get_stats :: "string \<Rightarrow> state \<Rightarrow> reply \<times> state" where
  "get_stats session s =
     (let reality_count = length (filter (\<lambda>r. r_user_session r = Some session) (realities s));
          tree_count = length (filter (\<lambda>t. t_user_session t = Some session) (reality_trees s));
          interaction_count =
            length (filter (\<lambda>a. a_user_session a = Some session) (analytics s))
      in (Inr (success (StatsBody reality_count tree_count interaction_count
                (diversityScore reality_count interaction_count))), s))"

subsection \<open>\<open>POST /api/ai/enhance-reality\<close> and \<open>GET /api/health\<close>\<close>

text \<open>
  \<open>reality.description\<close> throws for a reality that is absent or \<open>null\<close>, before the
  outcomes are generated; the handler's \<open>catch\<close> answers 500.
\<close>

definition property :: "string \<Rightarrow> json \<Rightarrow> json option" where
  "property k v = (case v of JObj ms \<Rightarrow> map_of ms k | _ \<Rightarrow> None)"

definition post_enhance :: "env \<Rightarrow> request_body \<Rightarrow> state \<Rightarrow> reply \<times> state" where
  "post_enhance E b s =
     (case reality_in b of
        None \<Rightarrow> (Inr (failure 500 ''Failed to enhance reality''), s)
      | Some JNull \<Rightarrow> (Inr (failure 500 ''Failed to enhance reality''), s)
      | Some r \<Rightarrow>
          (let (outs, s1) = generateOutcomes E (property ''title'' r) s
           in (Inr (success (EnhancedBody r outs)), s1)))"

definition get_health :: "nat \<Rightarrow> state \<Rightarrow> reply \<times> state" where
  "get_health now s = (Inr (success (HealthBody now)), s)"

subsection \<open>The server\<close>

datatype request =
    GetHealth
  | PostRealities request_body
  | GetRealities string "string option" "string option"
  | PostTrees string string request_body
  | GetSharedTree string
  | GetStats string
  | PostEnhance request_body

fun handle :: "env \<Rightarrow> nat \<Rightarrow> request \<Rightarrow> state \<Rightarrow> reply \<times> state" where
  "handle E now GetHealth s = get_health now s"
| "handle E now (PostRealities b) s = post_realities E now b s"
| "handle E now (GetRealities session limit offset) s = get_realities session limit offset s"
| "handle E now (PostTrees protocol host b) s = post_trees E now protocol host b s"
| "handle E now (GetSharedTree shareToken) s = get_shared_tree shareToken s"
| "handle E now (GetStats session) s = get_stats session s"
| "handle E now (PostEnhance b) s = post_enhance E b s"

text \<open>The state after a sequence of requests, each with the reading of the clock.\<close>

fun serve :: "env \<Rightarrow> (nat \<times> request) list \<Rightarrow> state \<Rightarrow> state" where
  "serve E [] s = s"
| "serve E ((now, req) # reqs) s = serve E reqs (snd (handle E now req s))"

section \<open>Notions of the statements\<close>


text \<open>
  The invariant of the sharing columns, and the two columns of every tree in the order
  of the table.
\<close>

definition share_invariant :: "state \<Rightarrow> bool" where
  "share_invariant s =
     (\<forall>t \<in> set (reality_trees s). (t_share_token t \<noteq> None) = (t_is_public t = 1))"

definition share_columns :: "state \<Rightarrow> (string option \<times> int) list" where
  "share_columns s = map (\<lambda>t. (t_share_token t, t_is_public t)) (reality_trees s)"

text \<open>
  The row that \<open>POST /api/trees\<close> hands to the \<open>INSERT\<close>. \<open>first_uuid\<close> is the
  position, among the identifiers of \<open>uuidv4\<close>, of the one that becomes the tree's id:
  the session key takes one before it when the request brings none.
\<close>

definition first_uuid :: "request_body \<Rightarrow> state \<Rightarrow> nat" where
  "first_uuid b s = (case userSession b of None \<Rightarrow> Suc (uuid_used s) | Some v \<Rightarrow> uuid_used s)"

definition new_tree :: "env \<Rightarrow> nat \<Rightarrow> request_body \<Rightarrow> state \<Rightarrow> tree_row" where
  "new_tree E now b s =
     \<lparr>t_id = uuid E (first_uuid b s),
      t_user_session =
        (case userSession b of None \<Rightarrow> Some (uuid E (uuid_used s)) | Some v \<Rightarrow> v),
      t_tree_data = JSON_stringify E (treeData b),
      t_share_token =
        (if truthy (makePublic b) then Some (uuid E (Suc (first_uuid b s))) else None),
      t_is_public = (if truthy (makePublic b) then 1 else 0),
      t_view_count = 0,
      t_created_at = now\<rparr>"

section \<open>Notions for the texts that \<open>JSON.parse\<close> reads\<close>





text \<open>
  A run of the automaton on the whole text from which no Number can come out: it has
  failed, or a bracket is open, or it is inside a string or a literal, or the value of
  the text is complete and is no Number.
\<close>

fun is_number :: "json \<Rightarrow> bool" where
  "is_number (JNum x) = True"
| "is_number v = False"

definition hopeless :: "config \<Rightarrow> bool" where
  "hopeless cfg =
     (case cfg of
        Failed \<Rightarrow> True
      | Config st m l \<Rightarrow>
          (case m of
             Done v \<Rightarrow> st = [] \<and> l = Between \<and> \<not> is_number v
           | _ \<Rightarrow>
               st \<noteq> [] \<or>
               (case l of
                  InString s \<Rightarrow> True
                | Escape s \<Rightarrow> True
                | Unicode s hs \<Rightarrow> True
                | InLiteral r v \<Rightarrow> \<not> is_number v
                | _ \<Rightarrow> False)))"


section \<open>Sample inputs\<close>

text \<open>
  An environment in which every draw of \<open>Math.random\<close> is 0.5 and the identifiers
  are numbered. With these draws the only Number with a fraction that is ever printed
  is 0.5. The empty state is the store after \<open>initDatabase\<close> on a new file.
\<close>

definition demo_env :: env where
  "demo_env = \<lparr>random = (\<lambda>i. 1 / 2), uuid = (\<lambda>i. ''uuid-'' @ decimal i),
     fraction_text = (\<lambda>x. ''0.5'')\<rparr>"

definition empty_state :: state where
  "empty_state = \<lparr>realities = [], reality_trees = [], analytics = [], rand_used = 0, uuid_used = 0\<rparr>"

text \<open>
  A store with \<open>n\<close> realities and \<open>m\<close> analytics rows of the session \<open>s\<close>; every
  reality holds the given outcomes text.
\<close>

definition sample_reality :: "string \<Rightarrow> string option \<Rightarrow> nat \<Rightarrow> reality_row" where
  "sample_reality session text i =
     \<lparr>r_id = ''reality-'' @ decimal i, r_user_session = Some session, r_title = ''a title'',
      r_description = None, r_original_event = ''what if'', r_outcomes = text,
      r_probability_score = 1 / 2, r_impact_score = 5, r_created_at = i, r_updated_at = i\<rparr>"

definition sample_event :: "string \<Rightarrow> nat \<Rightarrow> analytics_row" where
  "sample_event session i =
     \<lparr>a_id = Suc i, a_user_session = Some session, a_event_type = ''explore_node'',
      a_event_data = None, a_timestamp = i\<rparr>"

definition sample_state :: "string option \<Rightarrow> nat \<Rightarrow> nat \<Rightarrow> state" where
  "sample_state text n m =
     empty_state\<lparr>realities := map (sample_reality ''s'' text) [0..<n],
                  analytics := map (sample_event ''s'') [0..<m]\<rparr>"


text \<open>
  A body with no property; the body of a request that saves a public tree, and the
  state after that request on the empty store; a store whose one tree has a token but
  is not public; and a store whose realities hold no outcomes, the empty text, and a
  JSON text.
\<close>

definition empty_body :: request_body where
  "empty_body =
     \<lparr>event = None, userSession = None, treeData = None, makePublic = None, reality_in = None\<rparr>"

definition tree_body :: request_body where
  "tree_body =
     empty_body\<lparr>treeData := Some (JObj [(''nodes'', JArr [JNum 1, JNum 2])]),
                 makePublic := Some (JBool True)\<rparr>"

definition shared_state :: state where
  "shared_state = snd (post_trees demo_env 11 ''http'' ''localhost:3001'' tree_body empty_state)"

definition hidden_state :: state where
  "hidden_state =
     empty_state\<lparr>reality_trees :=
       [\<lparr>t_id = ''tree-1'', t_user_session = Some ''s'', t_tree_data = Some ''{}'',
         t_share_token = Some ''token-1'', t_is_public = 0, t_view_count = 0,
         t_created_at = 5\<rparr>]\<rparr>"


section \<open>Rounding to binary64\<close>

lemma round_half_even_of_int: "round_half_even (of_int n) = n"
  by (simp add: round_half_even_def)

lemma round_half_even_bounds: "\<lfloor>x\<rfloor> \<le> round_half_even x" "round_half_even x \<le> \<lfloor>x\<rfloor> + 1"
  by (simp_all add: round_half_even_def Let_def)

lemma round_half_even_mono:
  assumes "x \<le> y" shows "round_half_even x \<le> round_half_even y"
proof (cases "\<lfloor>x\<rfloor> = \<lfloor>y\<rfloor>")
  case True
  with assms show ?thesis
    by (auto simp: round_half_even_def Let_def)
next
  case False
  with assms have "\<lfloor>x\<rfloor> + 1 \<le> \<lfloor>y\<rfloor>"
    using floor_mono [of x y] by linarith
  with round_half_even_bounds [of x] round_half_even_bounds [of y] show ?thesis
    by linarith
qed

lemma bitlen_powi:
  assumes "0 < p"
  shows "(2::rat) powi (bitlen p - 1) \<le> of_int p" and "of_int p < (2::rat) powi bitlen p"
proof -
  from assms have b: "0 < bitlen p"
    using bitlen_eq_zero_iff [of p] bitlen_nonneg [of p] by linarith
  from bitlen_bounds [OF assms] have "(2::int) ^ nat (bitlen p - 1) \<le> p" "p < 2 ^ nat (bitlen p)"
    by simp_all
  then have "(of_int ((2::int) ^ nat (bitlen p - 1)) :: rat) \<le> of_int p"
    "(of_int p :: rat) < of_int (2 ^ nat (bitlen p))"
    by (simp_all only: of_int_le_iff of_int_less_iff)
  then have "(2::rat) ^ nat (bitlen p - 1) \<le> of_int p" "of_int p < (2::rat) ^ nat (bitlen p)"
    by simp_all
  moreover have "(2::rat) powi (bitlen p - 1) = 2 ^ nat (bitlen p - 1)"
    using b by (simp add: power_int_def)
  moreover have "(2::rat) powi bitlen p = 2 ^ nat (bitlen p)"
    using b by (simp add: power_int_def)
  ultimately show "(2::rat) powi (bitlen p - 1) \<le> of_int p" "of_int p < (2::rat) powi bitlen p"
    by simp_all
qed

lemma binade_bounds:
  assumes "x \<noteq> 0"
  shows "2 powi binade x \<le> \<bar>x\<bar>" and "\<bar>x\<bar> < 2 powi (binade x + 1)"
proof -
  obtain p q where pq: "quotient_of \<bar>x\<bar> = (p, q)"
    by (cases "quotient_of \<bar>x\<bar>")
  then have q: "0 < q" and x: "\<bar>x\<bar> = of_int p / of_int q"
    by (simp_all add: quotient_of_denom_pos quotient_of_div)
  from assms have "0 < \<bar>x\<bar>" by simp
  with x q have p: "0 < p"
    by (simp add: zero_less_divide_iff)
  define d where "d = bitlen p - bitlen q"
  note bp = bitlen_powi [OF p] and bq = bitlen_powi [OF q]
  have qpos: "(0::rat) < of_int q" using q by simp
  have "(2::rat) powi (d - 1) = 2 powi (bitlen p - 1) / 2 powi bitlen q"
    by (simp add: d_def power_int_diff [symmetric] algebra_simps)
  also have "\<dots> < of_int p / of_int q"
    by (rule frac_less2) (use bp bq qpos in simp_all)
  finally have lo: "2 powi (d - 1) < \<bar>x\<bar>" by (simp add: x)
  have "of_int p / of_int q < (2::rat) powi bitlen p / 2 powi (bitlen q - 1)"
    by (rule frac_less) (use bp bq qpos p in simp_all)
  also have "\<dots> = 2 powi (d + 1)"
    by (simp add: d_def power_int_diff [symmetric] algebra_simps)
  finally have hi: "\<bar>x\<bar> < 2 powi (d + 1)" by (simp add: x)
  have b: "binade x = (if 2 powi d \<le> \<bar>x\<bar> then d else d - 1)"
    by (simp add: binade_def pq d_def)
  show "2 powi binade x \<le> \<bar>x\<bar>"
    using lo by (simp add: b)
  show "\<bar>x\<bar> < 2 powi (binade x + 1)"
    using hi by (auto simp add: b)
qed

lemma binade_mono:
  assumes "0 < x" and "x \<le> y"
  shows "binade x \<le> binade y"
proof (rule ccontr)
  assume "\<not> binade x \<le> binade y"
  then have "binade y + 1 \<le> binade x" by simp
  then have "(2::rat) powi (binade y + 1) \<le> 2 powi binade x"
    by (rule power_int_increasing) simp
  moreover have "\<bar>y\<bar> < 2 powi (binade y + 1)" "2 powi binade x \<le> \<bar>x\<bar>"
    using assms binade_bounds [of x] binade_bounds [of y] by simp_all
  ultimately show False using assms by simp
qed

lemma ulp_pos: "0 < ulp x"
  by (simp add: ulp_def)

lemma binary64_nonneg:
  assumes "0 \<le> x" shows "0 \<le> binary64 x"
proof -
  have "0 \<le> x / ulp x" using assms ulp_pos [of x] by simp
  then have "0 \<le> \<lfloor>x / ulp x\<rfloor>" by simp
  with round_half_even_bounds(1) [of "x / ulp x"] have "0 \<le> round_half_even (x / ulp x)"
    by linarith
  then show ?thesis using ulp_pos [of x] by (simp add: binary64_def)
qed

lemma binary64_upper:
  assumes "0 < x"
  shows "binary64 x \<le> 2 powi (max (binade x) (- 1022) + 1)"
proof -
  define e where "e = max (binade x) (- 1022)"
  have u: "ulp x = 2 powi (e - 52)" by (simp add: ulp_def e_def)
  have "x < 2 powi (binade x + 1)" using binade_bounds(2) [of x] assms by simp
  also have "\<dots> \<le> 2 powi (e + 1)" by (rule power_int_increasing) (simp_all add: e_def)
  finally have "x / ulp x < 2 powi (e + 1) / ulp x"
    using ulp_pos [of x] by (simp add: divide_strict_right_mono)
  also have "2 powi (e + 1) / ulp x = (2::rat) powi 53"
    by (simp add: u power_int_diff [symmetric])
  also have "\<dots> = of_int (2 ^ 53)" by simp
  finally have "round_half_even (x / ulp x) \<le> round_half_even (of_int (2 ^ 53))"
    by (intro round_half_even_mono less_imp_le)
  then have "round_half_even (x / ulp x) \<le> 2 ^ 53" by (simp only: round_half_even_of_int)
  then have "(of_int (round_half_even (x / ulp x)) :: rat) \<le> of_int (2 ^ 53)"
    by (simp only: of_int_le_iff)
  then have "binary64 x \<le> of_int (2 ^ 53) * ulp x"
    using assms ulp_pos [of x] by (simp add: binary64_def mult_right_mono)
  also have "of_int (2 ^ 53) * ulp x = 2 powi (e + 1)"
    using power_int_add [of "2::rat" 53 "e - 52"] by (simp add: u add.commute)
  finally show ?thesis by (simp add: e_def)
qed

lemma binary64_lower:
  assumes "0 < x" and "- 1022 \<le> binade x"
  shows "2 powi binade x \<le> binary64 x"
proof -
  define e where "e = binade x"
  have u: "ulp x = 2 powi (e - 52)" using assms by (simp add: ulp_def e_def max_def)
  have "2 powi e \<le> x" using binade_bounds(1) [of x] assms by (simp add: e_def)
  then have "2 powi e / ulp x \<le> x / ulp x"
    using ulp_pos [of x] by (simp add: divide_right_mono)
  moreover have "2 powi e / ulp x = (2::rat) powi 52"
    by (simp add: u power_int_diff [symmetric])
  moreover have "(2::rat) powi 52 = of_int (2 ^ 52)" by simp
  ultimately have "round_half_even (of_int (2 ^ 52)) \<le> round_half_even (x / ulp x)"
    by (intro round_half_even_mono) simp
  then have "2 ^ 52 \<le> round_half_even (x / ulp x)" by (simp only: round_half_even_of_int)
  then have "(of_int (2 ^ 52) :: rat) \<le> of_int (round_half_even (x / ulp x))"
    by (simp only: of_int_le_iff)
  then have "of_int (2 ^ 52) * ulp x \<le> binary64 x"
    using assms ulp_pos [of x] by (simp add: binary64_def mult_right_mono)
  moreover have "of_int (2 ^ 52) * ulp x = 2 powi e"
    using power_int_add [of "2::rat" 52 "e - 52"] by (simp add: u)
  ultimately show ?thesis by (simp add: e_def)
qed

lemma binary64_mono:
  assumes "0 \<le> x" and "x \<le> y"
  shows "binary64 x \<le> binary64 y"
proof (cases "x = 0")
  case True
  then have "binary64 x = 0" by (simp add: binary64_def)
  with assms True binary64_nonneg [of y] show ?thesis by simp
next
  case False
  with assms have x: "0 < x" and y: "0 < y" by simp_all
  define ex where "ex = max (binade x) (- 1022)"
  define ey where "ey = max (binade y) (- 1022)"
  have le: "ex \<le> ey" using binade_mono [OF x assms(2)] by (simp add: ex_def ey_def)
  show ?thesis
  proof (cases "ex = ey")
    case True
    then have u: "ulp x = ulp y" by (simp add: ulp_def ex_def ey_def)
    have "x / ulp y \<le> y / ulp y" using assms ulp_pos [of y] by (simp add: divide_right_mono)
    then have "round_half_even (x / ulp y) \<le> round_half_even (y / ulp y)"
      by (rule round_half_even_mono)
    then have "(of_int (round_half_even (x / ulp y)) :: rat) \<le> of_int (round_half_even (y / ulp y))"
      by (simp only: of_int_le_iff)
    then show ?thesis
      using x y ulp_pos [of y] by (simp add: binary64_def u mult_right_mono)
  next
    case False
    with le have lt: "ex + 1 \<le> ey" by simp
    then have hy: "binade y = ey" "- 1022 \<le> binade y" by (simp_all add: ex_def ey_def)
    have "binary64 x \<le> 2 powi (ex + 1)" using binary64_upper [OF x] by (simp add: ex_def)
    also have "\<dots> \<le> 2 powi ey" using lt by (rule power_int_increasing) simp
    also have "\<dots> \<le> binary64 y" using binary64_lower [OF y hy(2)] by (simp add: hy(1))
    finally show ?thesis .
  qed
qed

lemma binary64_fixes_grid:
  assumes "x = of_int n * ulp x"
  shows "binary64 x = x"
proof (cases "x = 0")
  case True then show ?thesis by (simp add: binary64_def)
next
  case False
  have "x / ulp x = of_int n" using assms ulp_pos [of x]
    by (metis less_irrefl nonzero_mult_div_cancel_right)
  then show ?thesis using assms False by (simp add: binary64_def round_half_even_of_int)
qed

lemma below_one:
  assumes "is_binary64 r" and "0 \<le> r" and "r < 1"
  shows "r \<le> 1 - 1 / 2 ^ 53"
proof (cases "r = 0")
  case True
  then show ?thesis by simp
next
  case False
  with assms have r: "0 < r" by simp
  have e: "binade r \<le> - 1"
  proof (rule ccontr)
    assume "\<not> binade r \<le> - 1"
    then have "(2::rat) powi 0 \<le> 2 powi binade r"
      by (intro power_int_increasing) simp_all
    with binade_bounds(1) [of r] r assms(3) show False by simp
  qed
  show ?thesis
  proof (cases "binade r = - 1")
    case True
    then have u: "ulp r = 1 / 2 ^ 53"
      by (simp add: ulp_def power_int_minus inverse_eq_divide)
    define n where "n = round_half_even (r / ulp r)"
    from assms(1) False have rn: "r = of_int n / 2 ^ 53"
      by (simp add: is_binary64_def binary64_def n_def u)
    with assms(3) have "(of_int n :: rat) < of_int (2 ^ 53)" by simp
    then have "n < 2 ^ 53" by (simp only: of_int_less_iff)
    then have "n \<le> 2 ^ 53 - 1" by simp
    then have "(of_int n :: rat) \<le> of_int (2 ^ 53 - 1)" by (simp only: of_int_le_iff)
    then show ?thesis by (simp add: rn field_simps)
  next
    case False
    with e have "binade r + 1 \<le> - 1" by simp
    then have "(2::rat) powi (binade r + 1) \<le> 2 powi (- 1)"
      by (rule power_int_increasing) simp
    with binade_bounds(2) [of r] r have "r < 1 / 2" by (simp add: power_int_minus)
    then show ?thesis by simp
  qed
qed

lemma round_half_even_error: "\<bar>of_int (round_half_even x) - x\<bar> \<le> 1 / 2"
proof -
  have "of_int \<lfloor>x\<rfloor> \<le> x" "x < of_int \<lfloor>x\<rfloor> + 1" by linarith+
  then show ?thesis
    by (auto simp: round_half_even_def Let_def abs_le_iff)
qed

lemma binade_ge:
  assumes "2 powi k \<le> x"
  shows "k \<le> binade x"
proof (rule ccontr)
  assume "\<not> k \<le> binade x"
  then have "binade x + 1 \<le> k" by simp
  then have "(2::rat) powi (binade x + 1) \<le> 2 powi k"
    by (rule power_int_increasing) simp
  moreover have "(0::rat) < 2 powi k" by simp
  then have "0 < x" using assms by linarith
  ultimately show False using binade_bounds(2) [of x] assms by simp
qed

lemma binary64_error:
  assumes "1 / 4 \<le> x"
  shows "\<bar>binary64 x - x\<bar> \<le> x / 2 ^ 53"
proof -
  have x: "0 < x" using assms by simp
  have "(2::rat) powi (- 2) \<le> x" using assms by (simp add: power_int_minus)
  then have e: "- 2 \<le> binade x" by (rule binade_ge)
  define u where "u = ulp x"
  have u: "u = 2 powi (binade x - 52)" using e by (simp add: u_def ulp_def max_def)
  have upos: "0 < u" by (simp add: u_def ulp_pos)
  have "u = 2 powi binade x / 2 ^ 52"
    by (simp add: u power_int_diff)
  also have "\<dots> \<le> x / 2 ^ 52"
    using binade_bounds(1) [of x] x by (simp add: divide_right_mono)
  finally have ux: "u \<le> x / 2 ^ 52" .
  have "binary64 x - x = (of_int (round_half_even (x / u)) - x / u) * u"
    using x upos by (simp add: binary64_def u_def [symmetric] field_simps)
  then have "\<bar>binary64 x - x\<bar> = \<bar>of_int (round_half_even (x / u)) - x / u\<bar> * u"
    using upos by (simp add: abs_mult)
  also have "\<dots> \<le> (1 / 2) * u"
    using round_half_even_error [of "x / u"] upos by (intro mult_right_mono) simp_all
  also have "\<dots> \<le> (1 / 2) * (x / 2 ^ 52)"
    using ux by simp
  finally show ?thesis by simp
qed

lemma binary64_of_nat:
  assumes "n < 2 ^ 53"
  shows "binary64 (of_nat n) = of_nat n"
proof (cases "n = 0")
  case True
  then show ?thesis by (simp add: binary64_def)
next
  case False
  define x :: rat where "x = of_nat n"
  have x1: "1 \<le> x" using False by (simp add: x_def)
  then have "(2::rat) powi 0 \<le> x" by simp
  then have e0: "0 \<le> binade x" by (rule binade_ge)
  have e52: "binade x \<le> 52"
  proof (rule ccontr)
    assume "\<not> binade x \<le> 52"
    then have "(2::rat) powi 53 \<le> 2 powi binade x"
      by (intro power_int_increasing) simp_all
    moreover have "2 powi binade x \<le> x" using binade_bounds(1) [of x] x1 by simp
    moreover have "x < 2 ^ 53" using assms unfolding x_def
      by (metis of_nat_less_iff of_nat_numeral of_nat_power)
    ultimately show False by simp
  qed
  define k where "k = nat (52 - binade x)"
  have "ulp x = 2 powi (- int k)" using e0 e52 by (simp add: ulp_def k_def max_def)
  then have u: "ulp x = 1 / 2 ^ k" by (simp add: power_int_minus inverse_eq_divide)
  have "x = of_int (int n * 2 ^ k) * ulp x" unfolding u by (simp add: x_def)
  then have "binary64 x = x" by (rule binary64_fixes_grid)
  then show ?thesis by (simp add: x_def)
qed

section \<open>Properties of the title\<close>

lemma match_literal_eq:
  "match_literal w s =
     (if length w \<le> length s \<and> map canonicalize (take (length w) s) = map canonicalize w
      then Some (drop (length w) s) else None)"
  by (induction w s rule: match_literal.induct) auto

lemma match_branch_eq:
  "match_branch w s =
     (if begins_with w s then Some (dropWhile is_space (drop (length w) s)) else None)"
proof (cases "length w < length s")
  case True
  then have "drop (length w) s = s ! length w # drop (Suc (length w)) s"
    by (simp add: Cons_nth_drop_Suc)
  with True show ?thesis
    by (simp add: match_branch_def match_literal_eq match_spaces_def begins_with_def)
next
  case False
  then have "length w \<le> length s \<Longrightarrow> drop (length w) s = []"
    by simp
  with False show ?thesis
    by (auto simp: match_branch_def match_literal_eq match_spaces_def begins_with_def)
qed

lemma trim_dropWhile: "trim (dropWhile is_space s) = trim s"
  by (simp add: trim_def)

text \<open>
  C9. For every string, \<open>extractTitle\<close> cuts one leading "what if" or "if" (in any
  letter case, and only when whitespace follows it) and trims the remainder; a string
  that does not begin so is returned trimmed and otherwise unchanged.
\<close>

theorem extractTitle_refines_spec: "extractTitle s = extractTitle_spec s"
  by (simp add: extractTitle_def extractTitle_spec_def replace_what_if_def match_branch_eq
      trim_dropWhile)

theorem extractTitle_refines_spec_witness:
  "extractTitle ''What IF  we moved to Lisbon '' = ''we moved to Lisbon''
   \<and> extractTitle ''  iffy plans'' = ''iffy plans''"
proof -
  have "extractTitle_spec ''What IF  we moved to Lisbon '' = ''we moved to Lisbon''"
    by code_simp
  moreover have "extractTitle_spec ''  iffy plans'' = ''iffy plans''"
    by code_simp
  ultimately show ?thesis
    by (simp only: extractTitle_refines_spec)
qed

section \<open>Properties of the generator\<close>

lemma floor_draw:
  assumes "is_binary64 r" and "0 \<le> r" and "r < 1" and "0 \<le> k"
    and "binary64 ((1 - 1 / 2 ^ 53) * k) < of_int n"
  shows "0 \<le> Math_floor (times64 r k)" and "Math_floor (times64 r k) < n"
proof -
  have "r \<le> 1 - 1 / 2 ^ 53" using assms(1-3) by (rule below_one)
  then have "r * k \<le> (1 - 1 / 2 ^ 53) * k" using assms(4) by (rule mult_right_mono)
  moreover have "0 \<le> r * k" using assms by simp
  ultimately have "binary64 (r * k) \<le> binary64 ((1 - 1 / 2 ^ 53) * k)"
    by (intro binary64_mono)
  with assms(5) have "binary64 (r * k) < of_int n" by simp
  then show "Math_floor (times64 r k) < n"
    by (simp add: Math_floor_def times64_def floor_less_iff)
  have "0 \<le> binary64 (r * k)" using assms by (intro binary64_nonneg) simp
  then show "0 \<le> Math_floor (times64 r k)"
    by (simp add: Math_floor_def times64_def)
qed

lemma outcomes_loop_length:
  "length (fst (outcomes_loop E n i acc s)) = length acc + nat (n - int i)"
proof (induction E n i acc s rule: outcomes_loop.induct)
  case (1 E n i acc s)
  show ?case
  proof (cases "int i < n")
    case True
    obtain x s' where m: "make_outcome E i s = (x, s')" by (cases "make_outcome E i s")
    from True m 1 [of "(x, s')" x s'] show ?thesis
      by (subst outcomes_loop.simps) (simp add: nat_diff_distrib)
  next
    case False
    then show ?thesis by (subst outcomes_loop.simps) simp
  qed
qed

lemma random_okD:
  assumes "random_ok E"
  shows "is_binary64 (random E i)" "0 \<le> random E i" "random E i < 1"
  using assms by (simp_all add: random_ok_def)

lemma generateOutcomes_length:
  assumes "random_ok E"
  shows "2 \<le> length (fst (generateOutcomes E originalEvent s))"
    and "length (fst (generateOutcomes E originalEvent s)) \<le> 4"
proof -
  define r where "r = random E (rand_used s)"
  have b: "binary64 ((1 - 1 / 2 ^ 53) * 3) < of_int 3" by code_simp
  have f: "0 \<le> Math_floor (times64 r 3)" "Math_floor (times64 r 3) < 3"
    using floor_draw [OF random_okD [OF assms] _ b, of "rand_used s"] by (simp_all add: r_def)
  have "length (fst (generateOutcomes E originalEvent s)) = nat (Math_floor (times64 r 3) + 2)"
    by (simp add: generateOutcomes_def Math_random_def r_def Let_def outcomes_loop_length)
  with f show "2 \<le> length (fst (generateOutcomes E originalEvent s))"
    and "length (fst (generateOutcomes E originalEvent s)) \<le> 4" by simp_all
qed

lemma probability_range:
  assumes "is_binary64 r" and "0 \<le> r" and "r < 1"
  shows "2 / 10 \<le> plus64 (times64 r (literal (7 / 10))) (literal (2 / 10))"
    and "plus64 (times64 r (literal (7 / 10))) (literal (2 / 10)) < 9 / 10"
proof -
  define c7 where "c7 = literal (7 / 10)"
  define c2 where "c2 = literal (2 / 10)"
  have c7: "0 \<le> c7" unfolding c7_def literal_def by (rule binary64_nonneg) simp
  have c2: "0 \<le> c2" unfolding c2_def literal_def by (rule binary64_nonneg) simp
  have lo: "2 / 10 \<le> binary64 c2" unfolding c2_def by code_simp
  have hi: "binary64 (binary64 ((1 - 1 / 2 ^ 53) * c7) + c2) < 9 / 10"
    unfolding c7_def c2_def by code_simp
  have t0: "0 \<le> times64 r c7" unfolding times64_def using assms c7 by (intro binary64_nonneg) simp
  have "r \<le> 1 - 1 / 2 ^ 53" using assms by (rule below_one)
  then have "r * c7 \<le> (1 - 1 / 2 ^ 53) * c7" using c7 by (rule mult_right_mono)
  moreover have "0 \<le> r * c7" using assms c7 by simp
  ultimately have t1: "times64 r c7 \<le> binary64 ((1 - 1 / 2 ^ 53) * c7)"
    unfolding times64_def by (intro binary64_mono)
  have "binary64 c2 \<le> plus64 (times64 r c7) c2"
    unfolding plus64_def using t0 c2 by (intro binary64_mono) simp_all
  with lo show "2 / 10 \<le> plus64 (times64 r (literal (7 / 10))) (literal (2 / 10))"
    by (simp add: c7_def c2_def)
  have "plus64 (times64 r c7) c2 \<le> binary64 (binary64 ((1 - 1 / 2 ^ 53) * c7) + c2)"
    unfolding plus64_def using t0 t1 c2 by (intro binary64_mono) simp_all
  with hi show "plus64 (times64 r (literal (7 / 10))) (literal (2 / 10)) < 9 / 10"
    by (simp add: c7_def c2_def)
qed

lemma try_generateReality_string:
  assumes "generateOutcomes E (JStr ev) s = (outs, s1)"
  shows "\<exists>d. try_generateReality E (JStr ev) s =
     (Inr \<lparr>title = extractTitle ev, description = d, outcomes = outs,
            probability = plus64 (times64 (random E (Suc (rand_used s1))) (literal (7 / 10)))
                            (literal (2 / 10)),
            impact = Math_floor (times64 (random E (Suc (Suc (rand_used s1)))) 8) + 3\<rparr>,
      s1\<lparr>rand_used := Suc (Suc (Suc (rand_used s1)))\<rparr>)"
  by (simp add: try_generateReality_def assms generateDescription_def Math_random_def
      call_extractTitle_def Let_def)

lemma demo_env_ok: "random_ok demo_env"
proof -
  have "binary64 (1 / 2) = 1 / 2" by code_simp
  then show ?thesis by (simp add: random_ok_def demo_env_def is_binary64_def)
qed


text \<open>
  C2. For every string \<open>ev\<close> (empty or not), when \<open>Math.random\<close> keeps its contract,
  \<open>generateReality\<close> returns a reality, not an exception; it has between 2 and 4
  outcomes, its probability is at least 0.2 and less than 0.9, and its impact is an
  integer from 3 to 10. The bounds hold for the binary64 results of the source's
  arithmetic, and are stated against the exact decimals 0.2 and 0.9.
\<close>

theorem generateReality_ranges:
  assumes "random_ok E"
  shows "\<exists>R s'. generateReality E (JStr ev) s = (Inr R, s')
           \<and> 2 \<le> length (outcomes R) \<and> length (outcomes R) \<le> 4
           \<and> 2 / 10 \<le> probability R \<and> probability R < 9 / 10
           \<and> 3 \<le> impact R \<and> impact R \<le> 10"
proof -
  obtain outs s1 where go: "generateOutcomes E (JStr ev) s = (outs, s1)"
    by (cases "generateOutcomes E (JStr ev) s")
  define r1 where "r1 = random E (Suc (rand_used s1))"
  define r2 where "r2 = random E (Suc (Suc (rand_used s1)))"
  from try_generateReality_string [OF go] obtain d where
    t: "try_generateReality E (JStr ev) s =
     (Inr \<lparr>title = extractTitle ev, description = d, outcomes = outs,
            probability = plus64 (times64 r1 (literal (7 / 10))) (literal (2 / 10)),
            impact = Math_floor (times64 r2 8) + 3\<rparr>,
      s1\<lparr>rand_used := Suc (Suc (Suc (rand_used s1)))\<rparr>)"
    unfolding r1_def r2_def by blast
  have len: "2 \<le> length outs" "length outs \<le> 4"
    using generateOutcomes_length [OF assms, of "JStr ev" s] by (simp_all add: go)
  have p: "2 / 10 \<le> plus64 (times64 r1 (literal (7 / 10))) (literal (2 / 10))"
    "plus64 (times64 r1 (literal (7 / 10))) (literal (2 / 10)) < 9 / 10"
    unfolding r1_def by (rule probability_range [OF random_okD [OF assms]])+
  have b: "binary64 ((1 - 1 / 2 ^ 53) * 8) < of_int 8" by code_simp
  have i: "0 \<le> Math_floor (times64 r2 8)" "Math_floor (times64 r2 8) < 8"
    unfolding r2_def using floor_draw [OF random_okD [OF assms] _ b] by simp_all
  show ?thesis
    using len p i by (simp add: generateReality_def t)
qed

theorem generateReality_ranges_witness:
  "random_ok demo_env
   \<and> (\<exists>R s'. generateReality demo_env (JStr ''what if I had stayed'') empty_state = (Inr R, s')
           \<and> 2 \<le> length (outcomes R) \<and> length (outcomes R) \<le> 4
           \<and> 2 / 10 \<le> probability R \<and> probability R < 9 / 10
           \<and> 3 \<le> impact R \<and> impact R \<le> 10)"
  using generateReality_ranges [OF demo_env_ok] demo_env_ok by blast





section \<open>Properties of the reality handlers\<close>

text \<open>
  What the generator and the session default change of the state: they take values
  from the two sources and leave the tables as they are. Every call of
  \<open>generateReality\<close> takes a draw from \<open>Math.random\<close>.
\<close>

lemma trim_blank:
  assumes "\<forall>c \<in> set s. is_space c"
  shows "trim s = []"
proof -
  have h: "dropWhile is_space s = []" using assms by (induction s) auto
  show ?thesis unfolding trim_def h by simp
qed

lemma Math_random_used [simp]:
  "rand_used (snd (Math_random E s)) = Suc (rand_used s)"
  "uuid_used (snd (Math_random E s)) = uuid_used s"
  "realities (snd (Math_random E s)) = realities s"
  "reality_trees (snd (Math_random E s)) = reality_trees s"
  "analytics (snd (Math_random E s)) = analytics s"
  by (simp_all add: Math_random_def)

lemma uuidv4_used [simp]:
  "rand_used (snd (uuidv4 E s)) = rand_used s"
  "uuid_used (snd (uuidv4 E s)) = Suc (uuid_used s)"
  "realities (snd (uuidv4 E s)) = realities s"
  "reality_trees (snd (uuidv4 E s)) = reality_trees s"
  "analytics (snd (uuidv4 E s)) = analytics s"
  by (simp_all add: uuidv4_def)

lemma make_outcome_tables [simp]:
  "rand_used (snd (make_outcome E i s)) = rand_used s + 4"
  "realities (snd (make_outcome E i s)) = realities s"
  "reality_trees (snd (make_outcome E i s)) = reality_trees s"
  "analytics (snd (make_outcome E i s)) = analytics s"
  by (simp_all add: make_outcome_def Math_random_def uuidv4_def Let_def)

lemma outcomes_loop_tables:
  "rand_used s \<le> rand_used (snd (outcomes_loop E n i acc s))
   \<and> realities (snd (outcomes_loop E n i acc s)) = realities s
   \<and> reality_trees (snd (outcomes_loop E n i acc s)) = reality_trees s
   \<and> analytics (snd (outcomes_loop E n i acc s)) = analytics s"
proof (induction E n i acc s rule: outcomes_loop.induct)
  case (1 E n i acc s)
  show ?case
  proof (cases "int i < n")
    case True
    obtain x s' where m: "make_outcome E i s = (x, s')" by (cases "make_outcome E i s")
    have s': "s' = snd (make_outcome E i s)" by (simp add: m)
    have "outcomes_loop E n i acc s = outcomes_loop E n (Suc i) (acc @ [x]) s'"
      using True m by (subst outcomes_loop.simps) simp
    with True m 1 [of "(x, s')" x s'] show ?thesis
      by (simp add: s')
  next
    case False
    then have "outcomes_loop E n i acc s = (acc, s)"
      by (subst outcomes_loop.simps) simp
    then show ?thesis by simp
  qed
qed

lemma generateOutcomes_tables:
  "rand_used s < rand_used (snd (generateOutcomes E x s))"
  "realities (snd (generateOutcomes E x s)) = realities s"
  "reality_trees (snd (generateOutcomes E x s)) = reality_trees s"
  "analytics (snd (generateOutcomes E x s)) = analytics s"
  using outcomes_loop_tables [of "snd (Math_random E s)" E]
  by (simp_all add: generateOutcomes_def Let_def split_beta less_eq_Suc_le)

lemma generateFallbackReality_tables:
  "rand_used (snd (generateFallbackReality E ev s)) = rand_used s"
  "realities (snd (generateFallbackReality E ev s)) = realities s"
  "reality_trees (snd (generateFallbackReality E ev s)) = reality_trees s"
  "analytics (snd (generateFallbackReality E ev s)) = analytics s"
  by (simp_all add: generateFallbackReality_def call_extractTitle_def uuidv4_def Let_def
      split: json.splits)

lemma try_generateReality_tables:
  "rand_used s < rand_used (snd (try_generateReality E ev s))"
  "realities (snd (try_generateReality E ev s)) = realities s"
  "reality_trees (snd (try_generateReality E ev s)) = reality_trees s"
  "analytics (snd (try_generateReality E ev s)) = analytics s"
  using generateOutcomes_tables [where s = s and E = E and x = ev]
  by (cases ev; simp add: try_generateReality_def generateDescription_def call_extractTitle_def
      Math_random_def Let_def split_beta)+

lemma generateReality_tables:
  "rand_used s < rand_used (snd (generateReality E ev s))"
  "realities (snd (generateReality E ev s)) = realities s"
  "reality_trees (snd (generateReality E ev s)) = reality_trees s"
  "analytics (snd (generateReality E ev s)) = analytics s"
  using try_generateReality_tables [where s = s and E = E and ev = ev]
    generateFallbackReality_tables [where E = E and ev = ev
      and s = "snd (try_generateReality E ev s)"]
  by (auto simp: generateReality_def split_beta split: sum.splits prod.splits)

lemma session_or_new_tables [simp]:
  "rand_used (snd (session_or_new E b s)) = rand_used s"
  "realities (snd (session_or_new E b s)) = realities s"
  "reality_trees (snd (session_or_new E b s)) = reality_trees s"
  "analytics (snd (session_or_new E b s)) = analytics s"
  by (simp_all add: session_or_new_def uuidv4_def split: option.splits)

text \<open>
  C5. When the event of the body is missing or otherwise falsy (the empty string
  among them), or is a string of whitespace only, \<open>POST /api/realities\<close> answers 400
  with an error object, no table gets a row, and the generator has not run: no draw was
  taken from \<open>Math.random\<close>, while every run of \<open>generateReality\<close> takes one.
\<close>

theorem post_realities_rejects_blank:
  assumes "\<not> truthy (event b) \<or> (\<exists>ev. event b = Some (JStr ev) \<and> (\<forall>c \<in> set ev. is_space c))"
  shows "fst (post_realities E now b s) = Inr (failure 400 ''Event description is required'')
    \<and> realities (snd (post_realities E now b s)) = realities s
    \<and> analytics (snd (post_realities E now b s)) = analytics s
    \<and> reality_trees (snd (post_realities E now b s)) = reality_trees s
    \<and> rand_used (snd (post_realities E now b s)) = rand_used s
    \<and> (\<forall>x s0. rand_used s0 < rand_used (snd (generateReality E x s0)))"
proof -
  have "post_realities E now b s
      = (Inr (failure 400 ''Event description is required''), snd (session_or_new E b s))"
  proof (cases "truthy (event b)")
    case False
    then show ?thesis by (simp add: post_realities_def split_beta)
  next
    case True
    with assms obtain ev where ev: "event b = Some (JStr ev)" "\<forall>c \<in> set ev. is_space c"
      by blast
    then have "trim ev = []" by (simp add: trim_blank)
    with ev True show ?thesis by (simp add: post_realities_def split_beta)
  qed
  then show ?thesis by (simp add: generateReality_tables)
qed

theorem post_realities_rejects_blank_witness:
  "fst (post_realities demo_env 7 (empty_body\<lparr>event := Some (JStr ''   '')\<rparr>) empty_state)
     = Inr (failure 400 ''Event description is required'')
   \<and> snd (post_realities demo_env 7 (empty_body\<lparr>event := Some (JStr ''   '')\<rparr>) empty_state)
     = empty_state\<lparr>uuid_used := 1\<rparr>
   \<and> rand_used (snd (post_realities demo_env 7 (empty_body\<lparr>event := Some (JStr ''   '')\<rparr>)
        empty_state)) = rand_used empty_state"
proof -
  have sp: "is_space CHR '' ''" by code_simp
  have h: "\<not> truthy (event (empty_body\<lparr>event := Some (JStr ''   '')\<rparr>))
    \<or> (\<exists>ev. event (empty_body\<lparr>event := Some (JStr ''   '')\<rparr>) = Some (JStr ev)
          \<and> (\<forall>c \<in> set ev. is_space c))"
    using sp by simp
  have s: "snd (post_realities demo_env 7 (empty_body\<lparr>event := Some (JStr ''   '')\<rparr>) empty_state)
     = empty_state\<lparr>uuid_used := 1\<rparr>"
    by code_simp
  from post_realities_rejects_blank [OF h, of demo_env 7 empty_state] s show ?thesis
    by simp
qed








section \<open>\<open>JSON.parse\<close> reads what \<open>JSON.stringify\<close> writes\<close>

subsection \<open>Runs of the automaton\<close>

lemma run_simps [simp]:
  "run cfg [] = cfg"
  "run cfg (c # cs) = run (step cfg c) cs"
  "run cfg (a @ b) = run (run cfg a) b"
  by (simp_all add: run_def)

lemma run_Failed [simp]: "run Failed cs = Failed"
  by (induction cs) (simp_all add: step_def)

lemma settle_deliver [simp]: "settle (deliver st v) = deliver st v"
  by (cases "(st, v)" rule: deliver.cases) (simp_all add: settle_def)

lemma settle_Between [simp]: "settle (Config st m Between) = Config st m Between"
  by (simp add: settle_def)

lemma settle_Failed [simp]: "settle Failed = Failed"
  by (simp add: settle_def)







subsection \<open>Literals and strings\<close>










subsection \<open>Integers\<close>





subsection \<open>Arrays and objects\<close>








subsection \<open>Every value\<close>







subsection \<open>A numeral that is read alone is read wherever a value may stand\<close>

text \<open>
  A run from which no Number can come out stays so, and does not end with a Number.
\<close>

lemma hopeless_Failed [simp]: "hopeless Failed"
  by (simp add: hopeless_def)






















section \<open>Properties of the tree handlers\<close>

lemma truthy_default:
  "truthy (Some (case m of None \<Rightarrow> JBool False | Some v \<Rightarrow> v)) = truthy m"
  by (cases m) simp_all

lemma post_trees_unfold:
  "post_trees E now protocol host b s =
     (let s3 = s\<lparr>uuid_used :=
                  (if truthy (makePublic b) then Suc (Suc (first_uuid b s))
                   else Suc (first_uuid b s))\<rparr>
      in case insert_tree (new_tree E now b s) s3 of
           None \<Rightarrow> (Inr (failure 500 ''Failed to save tree''), s3)
         | Some s4 \<Rightarrow>
             (Inr (success (TreeSavedBody (t_id (new_tree E now b s))
                (t_share_token (new_tree E now b s))
                (case t_share_token (new_tree E now b s) of
                   None \<Rightarrow> None
                 | Some t \<Rightarrow>
                     if t = [] then None
                     else Some (protocol @ ''://'' @ host @ ''/share/'' @ t)))),
              logEvent E now (t_user_session (new_tree E now b s)) ''save_tree''
                (JObj [(''treeId'', JStr (t_id (new_tree E now b s))),
                       (''makePublic'', case makePublic b of None \<Rightarrow> JBool False | Some v \<Rightarrow> v)])
                s4))"
  by (cases "userSession b"; cases "truthy (makePublic b)")
    (simp_all add: post_trees_def session_or_new_def uuidv4_def Let_def truthy_default
      new_tree_def first_uuid_def cong: option.case_cong)


lemma logEvent_tables [simp]:
  "realities (logEvent E now u k d s) = realities s"
  "reality_trees (logEvent E now u k d s) = reality_trees s"
  "rand_used (logEvent E now u k d s) = rand_used s"
  "uuid_used (logEvent E now u k d s) = uuid_used s"
  by (simp_all add: logEvent_def)




lemma post_realities_trees [simp]:
  "reality_trees (snd (post_realities E now b s)) = reality_trees s"
  using generateReality_tables(3) [where E = E and s = "snd (session_or_new E b s)"]
  by (auto simp: post_realities_def split_beta insert_reality_def Let_def uuidv4_def
      split: option.splits json.splits sum.splits prod.splits if_splits)

lemma get_realities_state [simp]: "snd (get_realities session limit offset s) = s"
  by (simp add: get_realities_def split: option.splits sum.splits)

lemma get_stats_state [simp]: "snd (get_stats session s) = s"
  by (simp add: get_stats_def Let_def)

lemma post_enhance_trees [simp]:
  "reality_trees (snd (post_enhance E b s)) = reality_trees s"
  by (simp add: post_enhance_def split_beta generateOutcomes_tables
      split: option.splits json.splits)

lemma increment_views_columns [simp]:
  "map (\<lambda>t. (t_share_token t, t_is_public t)) (increment_views i rows)
     = map (\<lambda>t. (t_share_token t, t_is_public t)) rows"
  by (induction rows) (simp_all add: increment_views_def)

lemma get_shared_tree_trees:
  "reality_trees (snd (get_shared_tree shareToken s)) = reality_trees s
   \<or> (\<exists>i. reality_trees (snd (get_shared_tree shareToken s)) = increment_views i (reality_trees s))"
  by (auto simp: get_shared_tree_def Let_def split: option.splits sum.splits)

lemma post_trees_trees:
  "reality_trees (snd (post_trees E now protocol host b s)) = reality_trees s
   \<or> reality_trees (snd (post_trees E now protocol host b s))
       = reality_trees s @ [new_tree E now b s]"
  by (auto simp: post_trees_unfold Let_def insert_tree_def split: option.splits)

lemma handle_share_columns:
  "take (length (reality_trees s)) (share_columns (snd (handle E now req s))) = share_columns s"
proof (cases req)
  case (PostTrees protocol host b)
  with post_trees_trees [of E now protocol host b s] show ?thesis
    by (auto simp: share_columns_def)
next
  case (GetSharedTree shareToken)
  with get_shared_tree_trees [of shareToken s] show ?thesis
    by (auto simp: share_columns_def increment_views_def)
qed (simp_all add: share_columns_def get_health_def)

lemma share_invariant_columns:
  "share_invariant s = (\<forall>p \<in> set (share_columns s). (fst p \<noteq> None) = (snd p = 1))"
  by (auto simp: share_invariant_def share_columns_def)

lemma new_tree_share: "(t_share_token (new_tree E now b s) \<noteq> None) = (t_is_public (new_tree E now b s) = 1)"
  by (simp add: new_tree_def)

lemma handle_share_invariant:
  assumes "share_invariant s"
  shows "share_invariant (snd (handle E now req s))"
proof (cases req)
  case (PostTrees protocol host b)
  with post_trees_trees [of E now protocol host b s] assms new_tree_share [of E now b s]
  show ?thesis by (auto simp: share_invariant_def)
next
  case (GetSharedTree shareToken)
  have "share_columns (snd (get_shared_tree shareToken s)) = share_columns s"
    using get_shared_tree_trees [of shareToken s] by (auto simp: share_columns_def)
  with GetSharedTree assms show ?thesis
    by (simp add: share_invariant_columns)
qed (use assms in \<open>simp_all add: share_invariant_def get_health_def\<close>)

lemma serve_share_invariant:
  "share_invariant s \<Longrightarrow> share_invariant (serve E reqs s)"
proof (induction reqs arbitrary: s)
  case Nil
  then show ?case by simp
next
  case (Cons a reqs)
  then show ?case by (cases a) (simp add: handle_share_invariant)
qed

lemma post_trees_success:
  assumes "post_trees E now protocol host b s = (Inr r, s')" and "status r = 200"
  shows "reality_trees s' = reality_trees s @ [new_tree E now b s]"
    and "\<exists>url. body r = TreeSavedBody (t_id (new_tree E now b s))
                  (t_share_token (new_tree E now b s)) url"
    and "t_id (new_tree E now b s) \<notin> set (map t_id (reality_trees s))"
    and "t_share_token (new_tree E now b s) = None
         \<or> t_share_token (new_tree E now b s) \<notin> set (map t_share_token (reality_trees s))"
  using assms
  by (auto simp: post_trees_unfold Let_def insert_tree_def failure_def success_def
      split: option.splits if_splits)

text \<open>
  C4. In every state that the server reaches from the empty store, and after every
  request from a state where it holds, a tree has a share token exactly when its
  \<open>is_public\<close> is 1. A successful \<open>POST /api/trees\<close> appends one row: with a truthy
  \<open>makePublic\<close> it has a token that no tree had before and \<open>is_public\<close> 1, otherwise no
  token and \<open>is_public\<close> 0; the response carries the same token. No request changes the
  two columns of a row that is already there.
\<close>

theorem share_token_iff_public:
  "share_invariant (serve E reqs empty_state)
   \<and> (share_invariant s \<longrightarrow> share_invariant (snd (handle E now req s)))
   \<and> (post_trees E now protocol host b s = (Inr r, s') \<and> status r = 200 \<longrightarrow>
        (\<exists>row url. reality_trees s' = reality_trees s @ [row]
           \<and> body r = TreeSavedBody (t_id row) (t_share_token row) url
           \<and> (if truthy (makePublic b)
               then t_share_token row \<noteq> None
                    \<and> t_share_token row \<notin> set (map t_share_token (reality_trees s))
                    \<and> t_is_public row = 1
               else t_share_token row = None \<and> t_is_public row = 0)))
   \<and> take (length (reality_trees s)) (share_columns (snd (handle E now req s))) = share_columns s"
proof -
  have "share_invariant empty_state" by (simp add: share_invariant_def empty_state_def)
  then have a: "share_invariant (serve E reqs empty_state)" by (rule serve_share_invariant)
  have c: "\<exists>row url. reality_trees s' = reality_trees s @ [row]
           \<and> body r = TreeSavedBody (t_id row) (t_share_token row) url
           \<and> (if truthy (makePublic b)
               then t_share_token row \<noteq> None
                    \<and> t_share_token row \<notin> set (map t_share_token (reality_trees s))
                    \<and> t_is_public row = 1
               else t_share_token row = None \<and> t_is_public row = 0)"
    if "post_trees E now protocol host b s = (Inr r, s')" and "status r = 200"
  proof -
    note p = post_trees_success [OF that]
    from p(2) obtain url where "body r = TreeSavedBody (t_id (new_tree E now b s))
                  (t_share_token (new_tree E now b s)) url" by blast
    with p(1) p(4) show ?thesis
      by (intro exI [of _ "new_tree E now b s"] exI [of _ url]) (auto simp: new_tree_def)
  qed
  show ?thesis
    using a c handle_share_invariant [of s E now req] handle_share_columns [of s E now req]
    by blast
qed


theorem share_token_iff_public_witness:
  "share_invariant (serve demo_env
      [(11, PostTrees ''http'' ''localhost:3001'' tree_body), (12, GetSharedTree ''uuid-2'')]
      empty_state)
   \<and> share_invariant shared_state
   \<and> share_invariant (snd (handle demo_env 12 (GetSharedTree ''uuid-2'') shared_state))
   \<and> (\<exists>row url.
         reality_trees (snd (post_trees demo_env 12 ''http'' ''localhost:3001'' tree_body shared_state))
           = reality_trees shared_state @ [row]
         \<and> success (TreeSavedBody ''uuid-4'' (Some ''uuid-5'')
               (Some ''http://localhost:3001/share/uuid-5''))
             = success (TreeSavedBody (t_id row) (t_share_token row) url)
         \<and> t_share_token row \<noteq> None
         \<and> t_share_token row \<notin> set (map t_share_token (reality_trees shared_state))
         \<and> t_is_public row = 1)
   \<and> take (length (reality_trees shared_state))
        (share_columns (snd (handle demo_env 12 (GetSharedTree ''uuid-2'') shared_state)))
       = share_columns shared_state"
proof -
  define r where "r = success (TreeSavedBody ''uuid-4'' (Some ''uuid-5'')
    (Some ''http://localhost:3001/share/uuid-5''))"
  define s' where "s' = snd (post_trees demo_env 12 ''http'' ''localhost:3001'' tree_body shared_state)"
  have inv: "share_invariant shared_state" by code_simp
  have "fst (post_trees demo_env 12 ''http'' ''localhost:3001'' tree_body shared_state) = Inr r"
    unfolding r_def by code_simp
  then have post: "post_trees demo_env 12 ''http'' ''localhost:3001'' tree_body shared_state = (Inr r, s')"
    by (simp add: s'_def prod_eq_iff)
  have st: "status r = 200" by (simp add: r_def success_def)
  have pub: "truthy (makePublic tree_body)" by (simp add: tree_body_def empty_body_def)
  have b: "body r = TreeSavedBody ''uuid-4'' (Some ''uuid-5'') (Some ''http://localhost:3001/share/uuid-5'')"
    by (simp add: r_def success_def)
  note T = share_token_iff_public [of demo_env
      "[(11, PostTrees ''http'' ''localhost:3001'' tree_body), (12, GetSharedTree ''uuid-2'')]"
      shared_state 12 "GetSharedTree ''uuid-2''" "''http''" "''localhost:3001''" tree_body r s']
  note T1 = T [THEN conjunct1]
  note T2 = T [THEN conjunct2, THEN conjunct1, rule_format, OF inv]
  note T3 = T [THEN conjunct2, THEN conjunct2, THEN conjunct1, rule_format, OF conjI [OF post st],
      unfolded if_P [OF pub] b s'_def r_def [symmetric]]
  note T4 = T [THEN conjunct2, THEN conjunct2, THEN conjunct2]
  have T3': "\<exists>row url.
         reality_trees (snd (post_trees demo_env 12 ''http'' ''localhost:3001'' tree_body shared_state))
           = reality_trees shared_state @ [row]
         \<and> r = success (TreeSavedBody (t_id row) (t_share_token row) url)
         \<and> t_share_token row \<noteq> None
         \<and> t_share_token row \<notin> set (map t_share_token (reality_trees shared_state))
         \<and> t_is_public row = 1"
    using T3 unfolding r_def success_def by simp
  show ?thesis
    unfolding r_def [symmetric] using T1 inv T2 T3' T4 by (intro conjI)
qed

text \<open>
  C6. When no tree has the token, or each tree that has it is not public,
  \<open>GET /api/trees/share/:shareToken\<close> answers 404 with an error object and leaves the
  state as it is, every view count included.
\<close>

theorem get_shared_tree_not_found:
  assumes "\<forall>t \<in> set (reality_trees s). t_share_token t = Some shareToken \<longrightarrow> t_is_public t \<noteq> 1"
  shows "get_shared_tree shareToken s = (Inr (failure 404 ''Shared tree not found''), s)"
proof -
  have "find (\<lambda>t. t_share_token t = Some shareToken \<and> t_is_public t = 1) (reality_trees s) = None"
    using assms by (auto simp: find_None_iff)
  then show ?thesis by (simp add: get_shared_tree_def)
qed


theorem get_shared_tree_not_found_witness:
  "get_shared_tree ''token-1'' hidden_state
     = (Inr (failure 404 ''Shared tree not found''), hidden_state)
   \<and> get_shared_tree ''token-2'' hidden_state
     = (Inr (failure 404 ''Shared tree not found''), hidden_state)"
proof -
  have "\<forall>t \<in> set (reality_trees hidden_state). t_share_token t = Some ''token-1'' \<longrightarrow> t_is_public t \<noteq> 1"
    "\<forall>t \<in> set (reality_trees hidden_state). t_share_token t = Some ''token-2'' \<longrightarrow> t_is_public t \<noteq> 1"
    by (simp_all add: hidden_state_def empty_state_def)
  then show ?thesis
    by (simp add: get_shared_tree_not_found)
qed

lemma increment_views_ids [simp]: "map t_id (increment_views i rows) = map t_id rows"
  by (induction rows) (simp_all add: increment_views_def)














section \<open>Properties of the statistics\<close>

text \<open>
  The error of the score's arithmetic. For counts up to \<open>10 ^ 12\<close> the binary64 value
  of \<open>reality_count * 1.7 + interaction_count * 0.3\<close> is within a tenth of the exact
  sum, which is a multiple of a tenth; so the floor can differ from the floor of the
  exact sum only when that sum is an integer, and then only by 1.
\<close>

lemma of_nat_bound:
  assumes "n \<le> 10 ^ 12"
  shows "(of_nat n :: rat) \<le> 10 ^ 12"
  using assms by (metis of_nat_le_iff of_nat_numeral of_nat_power)

lemma product_error:
  fixes c C :: rat
  assumes n: "n \<le> 10 ^ 12" and c: "C \<le> c" "c - C \<le> 1 / 2 ^ 52" "1 / 4 \<le> C" "C \<le> 2"
  shows "\<bar>binary64 (of_nat n * C) - of_nat n * c\<bar> \<le> 1 / 2000"
    and "binary64 (of_nat n * C) = 0 \<or> 1 / 4 \<le> binary64 (of_nat n * C)"
proof -
  define x :: rat where "x = of_nat n"
  have x: "0 \<le> x" "x \<le> 10 ^ 12" using of_nat_bound [OF n] unfolding x_def
    by simp_all
  have both: "\<bar>binary64 (x * C) - x * c\<bar> \<le> 1 / 2000
      \<and> (binary64 (x * C) = 0 \<or> 1 / 4 \<le> binary64 (x * C))"
  proof (cases "n = 0")
    case True
    then show ?thesis by (simp add: x_def binary64_def)
  next
    case False
    then have x1: "1 \<le> x" by (simp add: x_def)
    have xC: "1 / 4 \<le> x * C" using x1 c(3) mult_mono [of 1 x "1 / 4" C] by simp
    have "x * C \<le> 10 ^ 12 * 2" using x c by (intro mult_mono) simp_all
    then have "x * C / 2 ^ 53 \<le> 10 ^ 12 * 2 / 2 ^ 53" by (rule divide_right_mono) simp
    also have "\<dots> \<le> (1 / 4000 :: rat)" by simp
    finally have r: "\<bar>binary64 (x * C) - x * C\<bar> \<le> 1 / 4000"
      using binary64_error [OF xC] by linarith
    have "x * (c - C) \<le> 10 ^ 12 * (1 / 2 ^ 52)" using x c by (intro mult_mono) simp_all
    also have "\<dots> \<le> (1 / 4000 :: rat)" by simp
    finally have d: "x * c - x * C \<le> 1 / 4000" by (simp add: algebra_simps)
    have d0: "0 \<le> x * c - x * C" using x c(1) by (simp add: mult_left_mono)
    have e: "\<bar>binary64 (x * C) - x * c\<bar> \<le> 1 / 2000" using r d d0 by linarith
    have "x * C / 2 ^ 53 \<le> x * C / 2" using xC by (intro divide_left_mono) simp_all
    then have "x * C / 2 \<le> binary64 (x * C)" using binary64_error [OF xC] by linarith
    then have "1 / 8 \<le> binary64 (x * C)" using xC by linarith
    moreover have "binary64 (1 / 4) \<le> binary64 (x * C)" using xC by (intro binary64_mono) simp_all
    moreover have "binary64 (1 / 4) = 1 / 4" by code_simp
    ultimately show ?thesis using e by simp
  qed
  then show "\<bar>binary64 (of_nat n * C) - of_nat n * c\<bar> \<le> 1 / 2000"
    and "binary64 (of_nat n * C) = 0 \<or> 1 / 4 \<le> binary64 (of_nat n * C)"
    by (simp_all add: x_def)
qed

lemma score_error:
  assumes "rc \<le> 10 ^ 12" and "ic \<le> 10 ^ 12"
  shows "\<bar>plus64 (times64 (to_number rc) (literal (17 / 10))) (times64 (to_number ic) (literal (3 / 10)))
          - (17 * of_nat rc + 3 * of_nat ic) / 10\<bar> < 1 / 10"
proof -
  define A where "A = binary64 (17 / 10)"
  define B where "B = binary64 (3 / 10)"
  have A: "A \<le> 17 / 10" "17 / 10 - A \<le> 1 / 2 ^ 52" "1 / 4 \<le> A" "A \<le> 2"
    unfolding A_def by code_simp+
  have B: "B \<le> 3 / 10" "3 / 10 - B \<le> 1 / 2 ^ 52" "1 / 4 \<le> B" "B \<le> 2"
    unfolding B_def by code_simp+
  have small: "rc < 2 ^ 53" "ic < 2 ^ 53" using assms by simp_all
  define p1 where "p1 = binary64 (of_nat rc * A)"
  define p2 where "p2 = binary64 (of_nat ic * B)"
  note e1 = product_error [OF assms(1) A, folded p1_def]
  note e2 = product_error [OF assms(2) B, folded p2_def]
  have nn: "0 \<le> p1" "0 \<le> p2"
    using e1(2) e2(2) by auto
  have X: "(of_nat rc :: rat) * (17 / 10) + of_nat ic * (3 / 10) \<le> 10 ^ 12 * (17 / 10) + 10 ^ 12 * (3 / 10)"
    using of_nat_bound [OF assms(1)] of_nat_bound [OF assms(2)]
    by (intro add_mono mult_right_mono) simp_all
  have s: "\<bar>binary64 (p1 + p2) - (p1 + p2)\<bar> \<le> 1 / 2000"
  proof (cases "p1 + p2 = 0")
    case True
    then show ?thesis by (simp add: binary64_def)
  next
    case False
    with e1(2) e2(2) nn have q: "1 / 4 \<le> p1 + p2" by auto
    have "p1 + p2 \<le> 10 ^ 12 * (17 / 10) + 10 ^ 12 * (3 / 10) + 1"
      using e1(1) e2(1) X by linarith
    then have "(p1 + p2) / 2 ^ 53 \<le> (10 ^ 12 * (17 / 10) + 10 ^ 12 * (3 / 10) + 1) / 2 ^ 53"
      by (rule divide_right_mono) simp
    also have "\<dots> \<le> (1 / 2000 :: rat)" by simp
    finally show ?thesis using binary64_error [OF q] by linarith
  qed
  have a: "plus64 (times64 (to_number rc) (literal (17 / 10))) (times64 (to_number ic) (literal (3 / 10)))
      = binary64 (p1 + p2)"
    by (simp add: plus64_def times64_def to_number_def literal_def
        binary64_of_nat [OF small(1)] binary64_of_nat [OF small(2)] p1_def p2_def A_def B_def)
  have b: "(17 * of_nat rc + 3 * of_nat ic) / 10
      = (of_nat rc :: rat) * (17 / 10) + of_nat ic * (3 / 10)"
    by (simp add: field_simps)
  have c: "\<bar>binary64 (p1 + p2) - ((of_nat rc :: rat) * (17 / 10) + of_nat ic * (3 / 10))\<bar>
      < 1 / 10"
    using e1(1) e2(1) s by linarith
  show ?thesis unfolding a b by (rule c)
qed

lemma diversityScore_exact:
  assumes "rc \<le> 10 ^ 12" and "ic \<le> 10 ^ 12"
  shows "if (17 * int rc + 3 * int ic) mod 10 = 0
         then diversityScore rc ic = (17 * int rc + 3 * int ic) div 10
              \<or> diversityScore rc ic = (17 * int rc + 3 * int ic) div 10 - 1
         else diversityScore rc ic = (17 * int rc + 3 * int ic) div 10"
proof -
  define N where "N = 17 * int rc + 3 * int ic"
  define y where "y = plus64 (times64 (to_number rc) (literal (17 / 10)))
    (times64 (to_number ic) (literal (3 / 10)))"
  have "(of_int N :: rat) / 10 = (17 * of_nat rc + 3 * of_nat ic) / 10"
    by (simp add: N_def)
  with score_error [OF assms] have e: "\<bar>y - of_int N / 10\<bar> < 1 / 10"
    by (simp add: y_def)
  have N: "(of_int N :: rat) = of_int (N div 10) * 10 + of_int (N mod 10)"
    by (metis mult.commute of_int_add of_int_mult of_int_numeral mult_div_mod_eq)
  have m: "0 \<le> N mod 10" "N mod 10 < 10" by simp_all
  have s: "diversityScore rc ic = \<lfloor>y\<rfloor>" by (simp add: diversityScore_def Math_floor_def y_def)
  show ?thesis
  proof (cases "N mod 10 = 0")
    case True
    with N have "(of_int N :: rat) / 10 = of_int (N div 10)" by simp
    with e have "of_int (N div 10) - 1 \<le> y" "y < of_int (N div 10) + 1" by linarith+
    then have "\<lfloor>y\<rfloor> = N div 10 \<or> \<lfloor>y\<rfloor> = N div 10 - 1"
      by (smt (verit) floor_less_iff le_floor_iff of_int_1 of_int_add of_int_diff)
    with True show ?thesis by (simp add: s N_def)
  next
    case False
    with m have "1 \<le> N mod 10" "N mod 10 \<le> 9" by linarith+
    then have "(1::rat) \<le> of_int (N mod 10)" "(of_int (N mod 10) :: rat) \<le> 9"
      by (simp_all add: of_int_le_iff [of 1, simplified] of_int_le_iff [of _ 9, simplified])
    with N e have "of_int (N div 10) \<le> y" "y < of_int (N div 10) + 1" by linarith+
    then have "\<lfloor>y\<rfloor> = N div 10" by (simp add: floor_unique)
    with False show ?thesis by (simp add: s N_def)
  qed
qed

text \<open>
  C7, as the code has it. \<open>GET /api/stats/:userSession\<close> answers with the numbers of
  the session's rows in the three tables and with the score, which is the floor of
  \<open>reality_count * 1.7 + interaction_count * 0.3\<close> as binary64 arithmetic gives it: the
  literals, each product and the sum are rounded. For counts up to \<open>10 ^ 12\<close> that is
  the floor of the exact sum \<open>(17 * reality_count + 3 * interaction_count) / 10\<close>, except
  that it can be one less when the exact sum is an integer. For 3 realities and 5
  analytics rows the score is 6.
\<close>

theorem get_stats_score:
  "(let rc = length (filter (\<lambda>r. r_user_session r = Some session) (realities s));
        tc = length (filter (\<lambda>t. t_user_session t = Some session) (reality_trees s));
        ic = length (filter (\<lambda>a. a_user_session a = Some session) (analytics s))
    in get_stats session s = (Inr (success (StatsBody rc tc ic (diversityScore rc ic))), s)
       \<and> diversityScore rc ic =
           \<lfloor>binary64 (binary64 (binary64 (of_nat rc) * binary64 (17 / 10))
                       + binary64 (binary64 (of_nat ic) * binary64 (3 / 10)))\<rfloor>
       \<and> (rc \<le> 10 ^ 12 \<and> ic \<le> 10 ^ 12 \<longrightarrow>
            (if (17 * int rc + 3 * int ic) mod 10 = 0
             then diversityScore rc ic = (17 * int rc + 3 * int ic) div 10
                  \<or> diversityScore rc ic = (17 * int rc + 3 * int ic) div 10 - 1
             else diversityScore rc ic = (17 * int rc + 3 * int ic) div 10))
       \<and> (rc = 3 \<and> ic = 5 \<longrightarrow> diversityScore rc ic = 6))"
proof -
  define rc where "rc = length (filter (\<lambda>r. r_user_session r = Some session) (realities s))"
  define tc where "tc = length (filter (\<lambda>t. t_user_session t = Some session) (reality_trees s))"
  define ic where "ic = length (filter (\<lambda>a. a_user_session a = Some session) (analytics s))"
  have a: "get_stats session s = (Inr (success (StatsBody rc tc ic (diversityScore rc ic))), s)"
    by (simp add: get_stats_def Let_def rc_def tc_def ic_def)
  have b: "diversityScore rc ic =
           \<lfloor>binary64 (binary64 (binary64 (of_nat rc) * binary64 (17 / 10))
                       + binary64 (binary64 (of_nat ic) * binary64 (3 / 10)))\<rfloor>"
    by (simp add: diversityScore_def Math_floor_def plus64_def times64_def to_number_def
        literal_def)
  have c: "rc \<le> 10 ^ 12 \<and> ic \<le> 10 ^ 12 \<longrightarrow>
            (if (17 * int rc + 3 * int ic) mod 10 = 0
             then diversityScore rc ic = (17 * int rc + 3 * int ic) div 10
                  \<or> diversityScore rc ic = (17 * int rc + 3 * int ic) div 10 - 1
             else diversityScore rc ic = (17 * int rc + 3 * int ic) div 10)"
    using diversityScore_exact [of rc ic] by blast
  have "diversityScore 3 5 = 6" by code_simp
  then have d: "rc = 3 \<and> ic = 5 \<longrightarrow> diversityScore rc ic = 6" by simp
  show ?thesis
    unfolding Let_def rc_def [symmetric] tc_def [symmetric] ic_def [symmetric]
    using a b c d by (intro conjI)
qed

theorem get_stats_score_witness:
  "get_stats ''s'' (sample_state None 3 5)
     = (Inr (success (StatsBody 3 0 5 6)), sample_state None 3 5)
   \<and> (17 * int 3 + 3 * int 5) mod 10 = 6
   \<and> diversityScore 3 5 = (17 * int 3 + 3 * int 5) div 10"
proof -
  have n: "length (filter (\<lambda>r. r_user_session r = Some ''s'') (realities (sample_state None 3 5))) = 3"
    "length (filter (\<lambda>t. t_user_session t = Some ''s'') (reality_trees (sample_state None 3 5))) = 0"
    "length (filter (\<lambda>a. a_user_session a = Some ''s'') (analytics (sample_state None 3 5))) = 5"
    by code_simp+
  have m: "(17 * int 3 + 3 * int 5) mod 10 = 6" "(3::nat) \<le> 10 ^ 12" "(5::nat) \<le> 10 ^ 12"
    by simp_all
  note T = get_stats_score [of "''s''" "sample_state None 3 5", unfolded Let_def n]
  have a: "get_stats ''s'' (sample_state None 3 5)
      = (Inr (success (StatsBody 3 0 5 (diversityScore 3 5))), sample_state None 3 5)"
    using T by (rule conjunct1)
  have b: "diversityScore 3 5 = 6"
    using T by blast
  have c: "diversityScore 3 5 = (17 * int 3 + 3 * int 5) div 10"
    using T m by (simp del: of_nat_numeral)
  show ?thesis
    using a c m(1) unfolding b by (intro conjI)
qed

text \<open>
  C7, as the claim has it, fails when the floor is taken of the exact sum: for 1
  reality and 31 analytics rows the exact sum is 11, and the handler returns 10.
\<close>

theorem get_stats_exact_floor_counterexample:
  "fst (get_stats ''s'' (sample_state None 1 31)) = Inr (success (StatsBody 1 0 31 10))
   \<and> \<lfloor>of_nat 1 * (17 / 10) + of_nat 31 * (3 / 10) :: rat\<rfloor> = 11"
  by code_simp

end
